theory Spec2Isabelle
  imports Complex_Main
begin

section \<open>JavaScript values\<close>

text \<open>
  The program is one Node.js script, \<^verbatim>\<open>src/index.js\<close>. Its data are JavaScript
  strings, numbers, booleans and \<^verbatim>\<open>undefined\<close>. A number is an IEEE double: every
  finite double is a rational, so \<open>Num r\<close> stands for the double of value \<open>r\<close>
  (both zeros are \<open>Num 0\<close>). Only what the script itself tests on numbers
  (truthiness, \<^verbatim>\<open>typeof\<close>, comparison with a constant) is defined here; rounding
  arithmetic, parsing and printing of numbers belong to the runtime and are taken
  as parameters below.
\<close>

datatype jsnum = NaN | Num rat | PosInf | NegInf

datatype jsval = JUndefined | JString string | JNumber jsnum | JBool bool

text \<open>\<^verbatim>\<open>!x\<close> is \<open>\<not> truthy x\<close>: the falsy values are \<^verbatim>\<open>undefined\<close>, \<^verbatim>\<open>''\<close>,
  \<^verbatim>\<open>0\<close>, \<^verbatim>\<open>NaN\<close> and \<^verbatim>\<open>false\<close>.\<close>

fun truthy :: "jsval \<Rightarrow> bool" where
  "truthy JUndefined = False"
| "truthy (JString s) = (s \<noteq> [])"
| "truthy (JNumber n) = (n \<noteq> NaN \<and> n \<noteq> Num 0)"
| "truthy (JBool b) = b"

datatype jstype = TyUndefined | TyString | TyNumber | TyBoolean

fun typeof :: "jsval \<Rightarrow> jstype" where
  "typeof JUndefined = TyUndefined"
| "typeof (JString s) = TyString"
| "typeof (JNumber n) = TyNumber"
| "typeof (JBool b) = TyBoolean"

text \<open>\<^verbatim>\<open>n > k\<close> on numbers; any comparison with \<^verbatim>\<open>NaN\<close> is false.\<close>

fun num_gt :: "jsnum \<Rightarrow> rat \<Rightarrow> bool" where
  "num_gt NaN k = False"
| "num_gt (Num r) k = (k < r)"
| "num_gt PosInf k = True"
| "num_gt NegInf k = False"

text \<open>
  What the script takes from the JavaScript runtime and from \<^verbatim>\<open>minimist\<close> about
  numbers: the test for a numeric-looking token, \<^verbatim>\<open>Number(s)\<close>, \<^verbatim>\<open>parseFloat(s)\<close>,
  \<^verbatim>\<open>String(n)\<close>, the addition of doubles, and
  \<^verbatim>\<open>n.toLocaleString(undefined, {style: 'currency', currency: 'USD'})\<close>, whose
  result depends on the locale of the machine.
\<close>

record runtime =
  isNumber :: "string \<Rightarrow> bool"
  toNumber :: "string \<Rightarrow> jsnum"
  parseFloat :: "string \<Rightarrow> jsnum"
  numToString :: "jsnum \<Rightarrow> string"
  add :: "jsnum \<Rightarrow> jsnum \<Rightarrow> jsnum"
  toCurrency :: "jsnum \<Rightarrow> string"

text \<open>\<^verbatim>\<open>String(v)\<close>, as a template literal \<^verbatim>\<open>${v}\<close> and a property key apply it.\<close>

fun to_string :: "runtime \<Rightarrow> jsval \<Rightarrow> string" where
  "to_string rt JUndefined = ''undefined''"
| "to_string rt (JString s) = s"
| "to_string rt (JNumber n) = numToString rt n"
| "to_string rt (JBool b) = (if b then ''true'' else ''false'')"

text \<open>\<^verbatim>\<open>Number(v)\<close>, as \<^verbatim>\<open>v > 1\<close> applies it to a value that is not a number.\<close>

fun to_number :: "runtime \<Rightarrow> jsval \<Rightarrow> jsnum" where
  "to_number rt JUndefined = NaN"
| "to_number rt (JString s) = toNumber rt s"
| "to_number rt (JNumber n) = n"
| "to_number rt (JBool b) = (if b then Num 1 else Num 0)"

text \<open>\<^verbatim>\<open>xs.join(sep)\<close> on an array of strings.\<close>

fun join :: "string \<Rightarrow> string list \<Rightarrow> string" where
  "join sep [] = []"
| "join sep [x] = x"
| "join sep (x # y # ys) = x @ sep @ join sep (y # ys)"

text \<open>\<^verbatim>\<open>str.padStart(n, ' ')\<close>; the strings padded here are ASCII, where the length
  in UTF-16 units is the number of characters.\<close>

definition padStart :: "nat \<Rightarrow> string \<Rightarrow> string" where
  "padStart n str = replicate (n - length str) (CHR '' '') @ str"

section \<open>Parsed invocations, errors and the world\<close>

text \<open>
  \<^verbatim>\<open>parseArgs\<close> returns an object whose first key is \<^verbatim>\<open>_\<close>, the array of positional
  values, followed by one key per option in the order they were set. The record keeps
  the array and the association list of the other keys.
\<close>

record parsed_args =
  positional :: "jsval list"
  named :: "(string \<times> jsval) list"

text \<open>\<^verbatim>\<open>args[key]\<close> for an option key: \<^verbatim>\<open>undefined\<close> when the key is absent.\<close>

definition arg :: "parsed_args \<Rightarrow> string \<Rightarrow> jsval" where
  "arg args key = (case map_of (named args) key of None \<Rightarrow> JUndefined | Some v \<Rightarrow> v)"

definition object_keys :: "parsed_args \<Rightarrow> string list" where
  "object_keys args = ''_'' # map fst (named args)"

text \<open>\<^verbatim>\<open>let [a, b] = xs\<close>: a missing element is \<^verbatim>\<open>undefined\<close>.\<close>

definition element :: "jsval list \<Rightarrow> nat \<Rightarrow> jsval" where
  "element xs i = (if i < length xs then xs ! i else JUndefined)"

text \<open>A thrown value: \<^verbatim>\<open>new Error(msg)\<close>, or a \<^verbatim>\<open>TypeError\<close> of the runtime. The
  top level prints only its message.\<close>

datatype error = Error string | TypeError string

fun message :: "error \<Rightarrow> string" where
  "message (Error m) = m"
| "message (TypeError m) = m"

text \<open>
  The configuration store \<^verbatim>\<open>new Conf({configName: 'alpacacli'})\<close> is a map from keys
  to values; \<^verbatim>\<open>config.get\<close> of a missing key is \<^verbatim>\<open>undefined\<close>.
\<close>

type_synonym config = "string \<rightharpoonup> jsval"

definition config_get :: "config \<Rightarrow> string \<Rightarrow> jsval" where
  "config_get c key = (case c key of None \<Rightarrow> JUndefined | Some v \<Rightarrow> v)"

definition config_set :: "string \<Rightarrow> jsval \<Rightarrow> config \<Rightarrow> config" where
  "config_set key v c = c(key \<mapsto> v)"

text \<open>The client that \<^verbatim>\<open>getAlpaca\<close> builds, and the requests made through it.\<close>

record alpaca =
  keyId :: jsval
  secretKey :: jsval
  paper :: bool
  baseUrl :: jsval

record order_request =
  req_symbol :: jsval
  req_qty :: jsval
  req_side :: string
  req_type :: jsval
  req_time_in_force :: jsval
  req_limit_price :: jsval
  req_stop_price :: jsval
  req_client_order_id :: jsval

datatype broker_call =
    CreateOrder alpaca order_request
  | GetBars alpaca string jsval nat
  | GetPositions alpaca

text \<open>What \<^verbatim>\<open>console.log\<close> was given: a string, or (when a lookup in an object
  literal found a member inherited from \<^verbatim>\<open>Object.prototype\<close>) that member.\<close>

datatype logged = Text string | Inherited string

record world =
  store :: config
  out :: "logged list"
  err :: "string list"
  calls :: "broker_call list"

definition console_log :: "logged \<Rightarrow> world \<Rightarrow> world" where
  "console_log x w = w\<lparr>out := out w @ [x]\<rparr>"

definition console_error :: "string \<Rightarrow> world \<Rightarrow> world" where
  "console_error m w = w\<lparr>err := err w @ [m]\<rparr>"

section \<open>The configure handler\<close>

text \<open>Lines 156 to 166: each of the four flags is written to the store when its value
  is truthy; then the option keys are printed.\<close>

definition configure :: "parsed_args \<Rightarrow> world \<Rightarrow> world" where
  "configure args w =
    (let c0 = store w;
         c1 = (if truthy (arg args ''id'') then config_set ''keyId'' (arg args ''id'') c0 else c0);
         c2 = (if truthy (arg args ''secret'') then config_set ''secretKey'' (arg args ''secret'') c1 else c1);
         c3 = (if truthy (arg args ''mode'') then config_set ''mode'' (arg args ''mode'') c2 else c2);
         c4 = (if truthy (arg args ''base-url'') then config_set ''baseUrl'' (arg args ''base-url'') c3 else c3)
     in console_log
          (Text (''configured '' @ join '', '' (filter (\<lambda>key. key \<noteq> ''_'') (object_keys args))))
          (w\<lparr>store := c4\<rparr>))"

section \<open>Usage texts\<close>

text \<open>Lines 24 to 64. \<open>\<newline>\<close> is the line feed; \<open>CHR 0x27\<close> is the apostrophe.\<close>

definition BUY_USAGE :: string where
  "BUY_USAGE = ''alpaca buy [quantity] <symbol>\<newline>  [--type=<market|limit|stop|stop_limit>]\<newline>  [--time-in-force=<day|gtc|opg|ioc>]\<newline>  [--limit-price=<number>]\<newline>  [--stop-price=<number>]''"

definition SELL_USAGE :: string where
  "SELL_USAGE = ''alpaca sell [quantity] <symbol>\<newline>  [--type=<market|limit|stop|stop_limit>]\<newline>  [--time-in-force=<day|gtc|opg|ioc>]\<newline>  [--limit-price=<number>]\<newline>  [--stop-price=<number>]''"

definition REPORT_USAGE :: string where
  "REPORT_USAGE = ''alpaca report\<newline>\<newline>Outputs a report of your current portfolio''"

definition CONFIGURE_USAGE :: string where
  "CONFIGURE_USAGE =
     ''alpaca configure [--id=<key-id>] [--secret=<secret-key>] [--mode=<paper|live>]\<newline>\<newline>Get your api key at https://alpaca.markets.\<newline>\<newline>''
     @ [CHR 0x27] @ ''paper'' @ [CHR 0x27] @ '' mode switches on paper trading. ''
     @ [CHR 0x27] @ ''live'' @ [CHR 0x27] @ '' is the default, and uses real money.''"

definition HELP :: string where
  "HELP =
     ''Usage:\<newline>alpaca <command>\<newline>\<newline>commands:\<newline>  configure   configure your alpaca cli installation\<newline>  buy         buy a stock\<newline>  sell        sell a stock\<newline>  report      display a report of your current portfolio\<newline>\<newline>Run ''
     @ [CHR 0x27] @ ''alpaca help <command>'' @ [CHR 0x27]
     @ '' for help with a specific command.\<newline>''"

definition HELP_DETAILS :: "(string \<times> string) list" where
  "HELP_DETAILS =
     [(''configure'', CONFIGURE_USAGE),
      (''buy'', BUY_USAGE @ ''\<newline>\<newline>Buys a stock''),
      (''sell'', SELL_USAGE @ ''\<newline>\<newline>Sells a stock''),
      (''report'', REPORT_USAGE),
      (''help'', HELP)]"

section \<open>Property lookup in an object literal\<close>

text \<open>
  \<^verbatim>\<open>HELP_DETAILS\<close> and \<^verbatim>\<open>cli\<close> are object literals, so \<^verbatim>\<open>obj[key]\<close> finds the own
  property of that name and otherwise the member of \<^verbatim>\<open>Object.prototype\<close> of that
  name (a function, or for \<^verbatim>\<open>__proto__\<close> the prototype object itself: all of them
  truthy, none of them with a property \<^verbatim>\<open>options\<close>, \<^verbatim>\<open>schema\<close> or \<^verbatim>\<open>fn\<close>), and
  is \<^verbatim>\<open>undefined\<close> only when neither has it.
\<close>

definition object_prototype_keys :: "string list" where
  "object_prototype_keys =
     [''constructor'', ''__defineGetter__'', ''__defineSetter__'', ''hasOwnProperty'',
      ''__lookupGetter__'', ''__lookupSetter__'', ''isPrototypeOf'',
      ''propertyIsEnumerable'', ''toString'', ''valueOf'', ''__proto__'',
      ''toLocaleString'']"

datatype 'a property = Own 'a | Proto string | Missing

definition get_property :: "(string \<times> 'a) list \<Rightarrow> string \<Rightarrow> 'a property" where
  "get_property obj key =
     (case map_of obj key of
        Some v \<Rightarrow> Own v
      | None \<Rightarrow> if key \<in> set object_prototype_keys then Proto key else Missing)"

section \<open>The brokerage client\<close>

text \<open>
  The brokerage service is outside the program: its three operations are parameters.
  Each takes the client built by \<^verbatim>\<open>getAlpaca\<close> and either fails (a rejected promise)
  or returns the object the script reads: the order with its \<^verbatim>\<open>id\<close>, the bars of
  each symbol with their closing price \<^verbatim>\<open>c\<close>, the list of positions.
\<close>

record order_result =
  order_id :: jsval

record bar =
  bar_c :: jsval

record position =
  pos_symbol :: jsval
  pos_qty :: jsval
  pos_cost_basis :: jsval
  pos_market_value :: jsval
  pos_unrealized_pl :: jsval

record broker =
  createOrder :: "alpaca \<Rightarrow> order_request \<Rightarrow> error + order_result"
  getBars :: "alpaca \<Rightarrow> string \<Rightarrow> jsval \<Rightarrow> nat \<Rightarrow> error + (string \<times> bar list) list"
  getPositions :: "alpaca \<Rightarrow> error + position list"

definition NO_CONFIGURATION :: string where
  "NO_CONFIGURATION =
     ''No alpaca configuration found.\<newline>See '' @ [CHR 0x27] @ ''alpaca help configure''
     @ [CHR 0x27] @ '' for more information.''"

text \<open>Lines 12 to 22.\<close>

definition getAlpaca :: "config \<Rightarrow> error + alpaca" where
  "getAlpaca c =
     (let kid = config_get c ''keyId'';
          sk = config_get c ''secretKey''
      in if \<not> truthy kid \<or> \<not> truthy sk then Inl (Error NO_CONFIGURATION)
         else Inr \<lparr>keyId = kid, secretKey = sk,
                   paper = (config_get c ''mode'' = JString ''paper''),
                   baseUrl = config_get c ''baseUrl''\<rparr>)"

definition record_call :: "broker_call \<Rightarrow> world \<Rightarrow> world" where
  "record_call x w = w\<lparr>calls := calls w @ [x]\<rparr>"

section \<open>The buy and sell handlers\<close>

text \<open>Lines 98 to 104 of \<^verbatim>\<open>order\<close>: the quantity and the symbol from the positional
  values, or the usage error.\<close>

definition order_positional :: "string \<Rightarrow> jsval list \<Rightarrow> error + jsval \<times> jsval" where
  "order_positional usage xs =
     (let qty = element xs 0;
          symbol = element xs 1
      in if \<not> truthy symbol \<and> typeof qty = TyString then Inr (JNumber (Num 1), qty)
         else if \<not> truthy qty \<or> \<not> truthy symbol then Inl (Error (''Usage: '' @ usage))
         else Inr (qty, symbol))"

text \<open>
  Lines 110 to 113, \<^verbatim>\<open>getMarketPrice\<close>: the closing price of the first bar of the
  symbol. Reading \<^verbatim>\<open>[0]\<close> of a missing entry, or \<^verbatim>\<open>.c\<close> of a missing first bar (or
  of element 0 of an inherited member), is a \<^verbatim>\<open>TypeError\<close>; the wording of its message
  is the runtime's.
\<close>

definition getMarketPrice ::
  "runtime \<Rightarrow> broker \<Rightarrow> alpaca \<Rightarrow> jsval \<Rightarrow> world \<Rightarrow> (error + jsval) \<times> world" where
  "getMarketPrice rt br a symbol w =
     (let w1 = record_call (GetBars a ''minute'' symbol 1) w
      in case getBars br a ''minute'' symbol 1 of
           Inl e \<Rightarrow> (Inl e, w1)
         | Inr bars \<Rightarrow>
             (case get_property bars (to_string rt symbol) of
                Missing \<Rightarrow> (Inl (TypeError ''Cannot read properties of undefined (reading 0)''), w1)
              | Proto m \<Rightarrow> (Inl (TypeError ''Cannot read properties of undefined (reading c)''), w1)
              | Own [] \<Rightarrow> (Inl (TypeError ''Cannot read properties of undefined (reading c)''), w1)
              | Own (latestBar # rest) \<Rightarrow> (Inr (bar_c latestBar), w1)))"

text \<open>Lines 114 to 117, \<^verbatim>\<open>priceText\<close>.\<close>

definition priceText ::
  "runtime \<Rightarrow> broker \<Rightarrow> alpaca \<Rightarrow> jsval \<Rightarrow> jsval \<Rightarrow> jsval \<Rightarrow> jsval \<Rightarrow> world
     \<Rightarrow> (error + string) \<times> world" where
  "priceText rt br a type symbol limit_price stop_price w =
     (if type = JString ''stop_limit''
        then (Inr (''between $'' @ to_string rt stop_price @ '' and $'' @ to_string rt limit_price), w)
      else if type = JString ''limit'' then (Inr (''at $'' @ to_string rt limit_price), w)
      else if type = JString ''stop'' then (Inr (''at $'' @ to_string rt stop_price), w)
      else (case getMarketPrice rt br a symbol w of
              (Inl e, w1) \<Rightarrow> (Inl e, w1)
            | (Inr price, w1) \<Rightarrow> (Inr (''at $'' @ to_string rt price), w1)))"

text \<open>
  Lines 89 to 122, \<^verbatim>\<open>order(side, usage)\<close>. A handler takes the world and returns
  the error it threw, if any, with the world as it was then.
\<close>

definition order ::
  "runtime \<Rightarrow> broker \<Rightarrow> string \<Rightarrow> string \<Rightarrow> parsed_args \<Rightarrow> world \<Rightarrow> error option \<times> world" where
  "order rt br side usage args w =
     (let type = arg args ''type'';
          time_in_force = arg args ''time-in-force'';
          limit_price = arg args ''limit-price'';
          stop_price = arg args ''stop-price'';
          client_order_id = arg args ''client-order-id''
      in case getAlpaca (store w) of
           Inl e \<Rightarrow> (Some e, w)
         | Inr a \<Rightarrow>
             (case order_positional usage (positional args) of
                Inl e \<Rightarrow> (Some e, w)
              | Inr (qty, symbol) \<Rightarrow>
                  (let req = \<lparr>req_symbol = symbol, req_qty = qty, req_side = side,
                              req_type = type, req_time_in_force = time_in_force,
                              req_limit_price = limit_price, req_stop_price = stop_price,
                              req_client_order_id = client_order_id\<rparr>;
                       w1 = record_call (CreateOrder a req) w
                   in case createOrder br a req of
                        Inl e \<Rightarrow> (Some e, w1)
                      | Inr ord \<Rightarrow>
                          (case priceText rt br a type symbol limit_price stop_price w1 of
                             (Inl e, w2) \<Rightarrow> (Some e, w2)
                           | (Inr ptext, w2) \<Rightarrow>
                               (None,
                                console_log
                                  (Text (''Placed a '' @ to_string rt type @ '' order to '' @ side
                                     @ '' '' @ to_string rt qty @ '' share''
                                     @ (if num_gt (to_number rt qty) 1 then ''s'' else '''')
                                     @ '' of '' @ to_string rt symbol @ '' '' @ ptext
                                     @ ''.\<newline>\<newline>  order id:  ''
                                     @ to_string rt (order_id ord)))
                                  w2)))))"

section \<open>The report handler\<close>

text \<open>Lines 129 to 137. \<^verbatim>\<open>parseFloat\<close> first turns its argument into a string;
  \<^verbatim>\<open>pad\<close> calls \<^verbatim>\<open>padStart\<close> on its argument, which only a string has.\<close>

definition usd :: "runtime \<Rightarrow> jsval \<Rightarrow> string" where
  "usd rt number = toCurrency rt (parseFloat rt (to_string rt number))"

definition pad :: "nat \<Rightarrow> jsval \<Rightarrow> error + string" where
  "pad n str =
     (case str of
        JString s \<Rightarrow> Inr (padStart n s)
      | JUndefined \<Rightarrow> Inl (TypeError ''Cannot read properties of undefined (reading padStart)'')
      | _ \<Rightarrow> Inl (TypeError ''str.padStart is not a function''))"

definition positionDescription :: "runtime \<Rightarrow> position \<Rightarrow> error + string" where
  "positionDescription rt pos =
     (case pad 8 (pos_symbol pos) of
        Inl e \<Rightarrow> Inl e
      | Inr s1 \<Rightarrow>
          (case pad 8 (pos_qty pos) of
             Inl e \<Rightarrow> Inl e
           | Inr s2 \<Rightarrow>
               Inr (s1 @ s2 @ padStart 10 (usd rt (pos_cost_basis pos))
                    @ padStart 10 (usd rt (pos_market_value pos))
                    @ padStart 12 (usd rt (pos_unrealized_pl pos)))))"

text \<open>\<^verbatim>\<open>positions.map(...)\<close>: the first description that throws ends the map.\<close>

fun positionDescriptions :: "runtime \<Rightarrow> position list \<Rightarrow> error + string list" where
  "positionDescriptions rt [] = Inr []"
| "positionDescriptions rt (pos # rest) =
     (case positionDescription rt pos of
        Inl e \<Rightarrow> Inl e
      | Inr d \<Rightarrow>
          (case positionDescriptions rt rest of
             Inl e \<Rightarrow> Inl e
           | Inr ds \<Rightarrow> Inr (d # ds)))"

text \<open>Lines 140 to 142: \<^verbatim>\<open>positions.reduce(...)\<close> from 0, left to right.\<close>

definition performance :: "runtime \<Rightarrow> position list \<Rightarrow> jsnum" where
  "performance rt positions =
     foldl (\<lambda>total pos. add rt total (parseFloat rt (to_string rt (pos_unrealized_pl pos))))
       (Num 0) positions"

definition positionSummary :: "runtime \<Rightarrow> string list \<Rightarrow> jsnum \<Rightarrow> string" where
  "positionSummary rt descriptions perf =
     (let perfSign = (if num_gt perf 0 then ''+'' else '''')
      in ''\<newline>Portfolio:\<newline>  symbol     qty      cost     value      profit\<newline>''
         @ join ''\<newline>'' descriptions
         @ ''\<newline>\<newline>Performance:\<newline>  '' @ perfSign @ usd rt (JNumber perf) @ ''\<newline>  '')"

text \<open>Lines 124 to 154.\<close>

definition report :: "runtime \<Rightarrow> broker \<Rightarrow> world \<Rightarrow> error option \<times> world" where
  "report rt br w =
     (case getAlpaca (store w) of
        Inl e \<Rightarrow> (Some e, w)
      | Inr a \<Rightarrow>
          (let w1 = record_call (GetPositions a) w
           in case getPositions br a of
                Inl e \<Rightarrow> (Some e, w1)
              | Inr positions \<Rightarrow>
                  (case positionDescriptions rt positions of
                     Inl e \<Rightarrow> (Some e, w1)
                   | Inr descriptions \<Rightarrow>
                       (None,
                        console_log
                          (Text (positionSummary rt descriptions (performance rt positions)))
                          w1))))"

section \<open>The help handler\<close>

text \<open>Lines 168 to 179, \<^verbatim>\<open>help\<close> (the name is a keyword of Isabelle, hence the suffix).\<close>

definition help_handler :: "runtime \<Rightarrow> parsed_args \<Rightarrow> world \<Rightarrow> error option \<times> world" where
  "help_handler rt args w =
     (let command = element (positional args) 0
      in if truthy command then
           (case get_property HELP_DETAILS (to_string rt command) of
              Missing \<Rightarrow>
                (Some (Error ([CHR 0x27] @ to_string rt command @ [CHR 0x27]
                         @ '' is not an alpaca command. See '' @ [CHR 0x27] @ ''alpaca help''
                         @ [CHR 0x27])), w)
            | Own details \<Rightarrow>
                (if details = []
                 then (Some (Error ([CHR 0x27] @ to_string rt command @ [CHR 0x27]
                         @ '' is not an alpaca command. See '' @ [CHR 0x27] @ ''alpaca help''
                         @ [CHR 0x27])), w)
                 else (None, console_log (Text details) w))
            | Proto m \<Rightarrow> (None, console_log (Inherited m) w))
         else (None, console_log (Text HELP) w))"

section \<open>Option declarations and the argument parser\<close>

text \<open>
  \<^verbatim>\<open>minimistOpts({...})\<close> declares, for each flag, its type and possibly a default
  (lines 66 to 78 and 183 to 188, 212, 217). The declarations are the script's; the
  record is the spec's OptionDeclaration.
\<close>

datatype option_type = OString | ONumber | OBoolean

record option_decl =
  flagName :: string
  otype :: option_type
  dflt :: "jsval option"

definition orderOptions :: "option_decl list" where
  "orderOptions =
     [\<lparr>flagName = ''type'', otype = OString, dflt = Some (JString ''market'')\<rparr>,
      \<lparr>flagName = ''time-in-force'', otype = OString, dflt = Some (JString ''gtc'')\<rparr>,
      \<lparr>flagName = ''limit-price'', otype = ONumber, dflt = None\<rparr>,
      \<lparr>flagName = ''stop-price'', otype = ONumber, dflt = None\<rparr>,
      \<lparr>flagName = ''client-order-id'', otype = OString, dflt = None\<rparr>]"

definition configureOptions :: "option_decl list" where
  "configureOptions =
     [\<lparr>flagName = ''id'', otype = OString, dflt = None\<rparr>,
      \<lparr>flagName = ''secret'', otype = OString, dflt = None\<rparr>,
      \<lparr>flagName = ''mode'', otype = OString, dflt = None\<rparr>,
      \<lparr>flagName = ''base-url'', otype = OString, dflt = None\<rparr>]"

text \<open>
  Modelled from the spec: the parser \<^verbatim>\<open>parseArgs\<close> is the package \<^verbatim>\<open>minimist\<close>, which
  is not part of the sources. Section 4.2 of the spec: a flag token is \<^verbatim>\<open>--name=value\<close>
  or \<^verbatim>\<open>--name\<close>; every other token is positional.
\<close>

definition flag_token :: "string \<Rightarrow> (string \<times> string option) option" where
  "flag_token t =
     (case t of
        c1 # c2 # rest \<Rightarrow>
          (if c1 = CHR ''-'' \<and> c2 = CHR ''-'' then
             (let name = takeWhile (\<lambda>c. c \<noteq> CHR ''='') rest;
                  after = dropWhile (\<lambda>c. c \<noteq> CHR ''='') rest
              in if name = [] then None
                 else (case after of [] \<Rightarrow> Some (name, None) | eq # v \<Rightarrow> Some (name, Some v)))
           else None)
      | _ \<Rightarrow> None)"

text \<open>Modelled from the spec: the declared type of a flag, section 4.2; none for a flag
  that is not declared.\<close>

definition decl_type :: "option_decl list \<Rightarrow> string \<Rightarrow> option_type option" where
  "decl_type decls name = map_option otype (find (\<lambda>d. flagName d = name) decls)"

text \<open>
  Modelled from the spec: coercion of a flag's value to the declared type, section 4.2:
  number by numeric parse (a malformed number is the not-a-number value of the
  runtime's \<^verbatim>\<open>Number\<close>), boolean by presence, string verbatim. The policy chosen for
  a flag that is not declared is to pass its value through as a string.
\<close>

definition coerce :: "runtime \<Rightarrow> option_type option \<Rightarrow> string \<Rightarrow> jsval" where
  "coerce rt ty v =
     (case ty of
        Some ONumber \<Rightarrow> JNumber (toNumber rt v)
      | Some OBoolean \<Rightarrow> JBool True
      | Some OString \<Rightarrow> JString v
      | None \<Rightarrow> JString v)"

text \<open>
  Modelled from the spec: a positional token. Section 4.6 distinguishes the
  numeric-looking tokens, and line 99 of the script tells them by \<^verbatim>\<open>typeof\<close>: a
  numeric-looking token arrives as a number, any other as the string it is.
\<close>

definition positional_value :: "runtime \<Rightarrow> string \<Rightarrow> jsval" where
  "positional_value rt t = (if isNumber rt t then JNumber (toNumber rt t) else JString t)"

text \<open>Modelled from the spec: storing a value under a flag name, section 4.2, as the
  assignment \<^verbatim>\<open>obj[key] = v\<close> does: an existing key keeps its place, a new key goes
  last.\<close>

fun assign :: "string \<Rightarrow> jsval \<Rightarrow> (string \<times> jsval) list \<Rightarrow> (string \<times> jsval) list" where
  "assign key v [] = [(key, v)]"
| "assign key v (p # ps) = (if fst p = key then (key, v) # ps else p # assign key v ps)"

text \<open>Modelled from the spec: a flag with its value, coerced and stored, section 4.2.\<close>

definition set_flag :: "runtime \<Rightarrow> option_decl list \<Rightarrow> string \<Rightarrow> string \<Rightarrow> parsed_args \<Rightarrow> parsed_args" where
  "set_flag rt decls name v acc = acc\<lparr>named := assign name (coerce rt (decl_type decls name) v) (named acc)\<rparr>"

text \<open>
  Modelled from the spec: the pass over the tokens, section 4.2. Positional tokens are
  collected in order; \<^verbatim>\<open>--name=value\<close> stores the coerced value; \<^verbatim>\<open>--name\<close> of a
  boolean flag stores true; \<^verbatim>\<open>--name value\<close> takes the next token as the value when
  that token is not itself a flag token. The spec leaves open a flag with no value
  at all: here a number flag gets the not-a-number sentinel and any other flag the
  empty string. The parser never fails.
\<close>

fun parse_tokens :: "runtime \<Rightarrow> option_decl list \<Rightarrow> string list \<Rightarrow> parsed_args \<Rightarrow> parsed_args" where
  "parse_tokens rt decls [] acc = acc"
| "parse_tokens rt decls (t # ts) acc =
     (case flag_token t of
        None \<Rightarrow>
          parse_tokens rt decls ts (acc\<lparr>positional := positional acc @ [positional_value rt t]\<rparr>)
      | Some (name, Some v) \<Rightarrow> parse_tokens rt decls ts (set_flag rt decls name v acc)
      | Some (name, None) \<Rightarrow>
          (if decl_type decls name = Some OBoolean
             then parse_tokens rt decls ts (acc\<lparr>named := assign name (JBool True) (named acc)\<rparr>)
           else (case ts of
                   [] \<Rightarrow>
                     acc\<lparr>named := assign name
                                      (if decl_type decls name = Some ONumber then JNumber NaN
                                       else JString [])
                                      (named acc)\<rparr>
                 | v # rest \<Rightarrow>
                     (if flag_token v = None then parse_tokens rt decls rest (set_flag rt decls name v acc)
                      else parse_tokens rt decls ts
                             (acc\<lparr>named := assign name
                                      (if decl_type decls name = Some ONumber then JNumber NaN
                                       else JString [])
                                      (named acc)\<rparr>)))))"

text \<open>
  Modelled from the spec: defaults, section 4.2. A declared flag absent from the input
  receives its declared default; a flag with no default stays absent.
\<close>

fun apply_defaults :: "option_decl list \<Rightarrow> (string \<times> jsval) list \<Rightarrow> (string \<times> jsval) list" where
  "apply_defaults [] kvs = kvs"
| "apply_defaults (d # ds) kvs =
     apply_defaults ds
       (case dflt d of
          None \<Rightarrow> kvs
        | Some v \<Rightarrow> if map_of kvs (flagName d) = None then kvs @ [(flagName d, v)] else kvs)"

text \<open>
  Modelled from the spec: \<^verbatim>\<open>parseArgs(argv, options)\<close>, the tokens and then the
  defaults, section 4.2.
\<close>

definition parseArgs :: "runtime \<Rightarrow> string list \<Rightarrow> option_decl list \<Rightarrow> parsed_args" where
  "parseArgs rt argv decls =
     (let p = parse_tokens rt decls argv \<lparr>positional = [], named = []\<rparr>
      in p\<lparr>named := apply_defaults decls (named p)\<rparr>)"

section \<open>Validation schemas and the validator\<close>

text \<open>
  The schemas are the script's (lines 80 to 87 and 189 to 195), written as the spec's
  ValidationRule: \<^verbatim>\<open>joi.only(...)\<close> is oneOf, \<^verbatim>\<open>joi.number()\<close> and \<^verbatim>\<open>joi.string()\<close>
  are type checks, \<^verbatim>\<open>joi.any()\<close> passes everything through, and \<^verbatim>\<open>.required()\<close> or
  \<^verbatim>\<open>.optional()\<close> sets the flag.
\<close>

datatype rule_kind = OneOf "string list" | TypeCheck jstype | OptionalPassthrough

record validation_rule =
  fieldName :: string
  kind :: rule_kind
  required :: bool

definition orderSchema :: "validation_rule list" where
  "orderSchema =
     [\<lparr>fieldName = ''_'', kind = OptionalPassthrough, required = False\<rparr>,
      \<lparr>fieldName = ''type'', kind = OneOf [''market'', ''limit'', ''stop'', ''stop_limit''],
        required = True\<rparr>,
      \<lparr>fieldName = ''time-in-force'', kind = OneOf [''day'', ''gtc'', ''opg'', ''ioc''],
        required = True\<rparr>,
      \<lparr>fieldName = ''limit-price'', kind = TypeCheck TyNumber, required = False\<rparr>,
      \<lparr>fieldName = ''stop-price'', kind = TypeCheck TyNumber, required = False\<rparr>,
      \<lparr>fieldName = ''client-order-id'', kind = TypeCheck TyString, required = False\<rparr>]"

definition configureSchema :: "validation_rule list" where
  "configureSchema =
     [\<lparr>fieldName = ''_'', kind = OptionalPassthrough, required = False\<rparr>,
      \<lparr>fieldName = ''id'', kind = TypeCheck TyString, required = False\<rparr>,
      \<lparr>fieldName = ''secret'', kind = TypeCheck TyString, required = False\<rparr>,
      \<lparr>fieldName = ''mode'', kind = OneOf [''paper'', ''live''], required = False\<rparr>,
      \<lparr>fieldName = ''base-url'', kind = TypeCheck TyString, required = False\<rparr>]"

text \<open>
  Modelled from the spec: the check of one present value against a rule kind, section
  4.3 (the validator is the package \<^verbatim>\<open>joi\<close>, which is not part of the sources).
  oneOf is exact string membership; a type check compares the type, and the
  not-a-number sentinel of the parser fails the number check; a passthrough accepts
  everything.
\<close>

fun check_kind :: "rule_kind \<Rightarrow> jsval \<Rightarrow> bool" where
  "check_kind (OneOf allowed) v = (case v of JString s \<Rightarrow> s \<in> set allowed | _ \<Rightarrow> False)"
| "check_kind (TypeCheck t) v = (typeof v = t \<and> v \<noteq> JNumber NaN)"
| "check_kind OptionalPassthrough v = True"

text \<open>
  Modelled from the spec: the line reported for a violated rule, section 4.3: human
  readable and naming the offending field (here in double quotes, \<open>CHR 0x22\<close>).
\<close>

definition quoted :: "string \<Rightarrow> string" where
  "quoted s = [CHR 0x22] @ s @ [CHR 0x22]"

text \<open>Modelled from the spec: the wording of the line for each rule kind, section 4.3.\<close>

fun kind_message :: "string \<Rightarrow> rule_kind \<Rightarrow> string" where
  "kind_message name (OneOf allowed) = quoted name @ '' must be one of ['' @ join '', '' allowed @ '']''"
| "kind_message name (TypeCheck t) =
     quoted name @ (if t = TyNumber then '' must be a number''
                    else if t = TyString then '' must be a string''
                    else if t = TyBoolean then '' must be a boolean''
                    else '' is not allowed'')"
| "kind_message name OptionalPassthrough = quoted name @ '' is not allowed''"

text \<open>
  Modelled from the spec: one rule against a parsed invocation, section 4.3. An absent
  field violates the rule exactly when the rule is required; a present field
  violates it exactly when the value fails the rule's kind. The field \<^verbatim>\<open>_\<close> is always
  present and is an array.
\<close>

definition violation :: "validation_rule \<Rightarrow> parsed_args \<Rightarrow> string option" where
  "violation r args =
     (if fieldName r = ''_'' then
        (if kind r = OptionalPassthrough then None else Some (kind_message (fieldName r) (kind r)))
      else if arg args (fieldName r) = JUndefined then
        (if required r then Some (quoted (fieldName r) @ '' is required'') else None)
      else if check_kind (kind r) (arg args (fieldName r)) then None
      else Some (kind_message (fieldName r) (kind r)))"

text \<open>
  Modelled from the spec: \<^verbatim>\<open>joi.validate(value, schema, {abortEarly})\<close>, section 4.3.
  Every rule is evaluated, in the order of the schema; the result holds the messages
  of all violated rules, or only the first of them when \<^verbatim>\<open>abortEarly\<close> is set. Flags
  that no rule names are not checked (section 3).
\<close>

definition joi_validate :: "parsed_args \<Rightarrow> validation_rule list \<Rightarrow> bool \<Rightarrow> string list" where
  "joi_validate v sch abortEarly =
     (let details = List.map_filter (\<lambda>r. violation r v) sch
      in if abortEarly then take 1 details else details)"

text \<open>Lines 235 to 246, with \<^verbatim>\<open>abortEarly: false\<close>.\<close>

definition assertSchema :: "parsed_args \<Rightarrow> validation_rule list \<Rightarrow> error + parsed_args" where
  "assertSchema v sch =
     (let details = joi_validate v sch False
      in if details \<noteq> [] then Inl (Error (join ''\<newline>'' details)) else Inr v)"

text \<open>The lines of a text: the pieces between its line feeds.\<close>

fun split_lines :: "string \<Rightarrow> string list" where
  "split_lines [] = [[]]"
| "split_lines (c # cs) =
     (if c = CHR 0x0A then [] # split_lines cs
      else (case split_lines cs of [] \<Rightarrow> [[c]] | l # ls \<Rightarrow> (c # l) # ls))"

section \<open>The command table and the dispatcher\<close>

text \<open>Lines 181 to 220. A handler is named by a constructor and run by \<open>run_handler\<close>.\<close>

datatype handler = Configure | Order string string | Report | Help

record command_spec =
  options :: "option_decl list"
  schema :: "validation_rule list option"
  fn :: handler

definition configure_spec :: command_spec where
  "configure_spec = \<lparr>options = configureOptions, schema = Some configureSchema, fn = Configure\<rparr>"

definition buy_spec :: command_spec where
  "buy_spec = \<lparr>options = orderOptions, schema = Some orderSchema, fn = Order ''buy'' BUY_USAGE\<rparr>"

definition sell_spec :: command_spec where
  "sell_spec = \<lparr>options = orderOptions, schema = Some orderSchema, fn = Order ''sell'' SELL_USAGE\<rparr>"

definition report_spec :: command_spec where
  "report_spec = \<lparr>options = [], schema = None, fn = Report\<rparr>"

definition help_spec :: command_spec where
  "help_spec = \<lparr>options = [], schema = None, fn = Help\<rparr>"

definition cli :: "(string \<times> command_spec) list" where
  "cli =
     [(''configure'', configure_spec), (''buy'', buy_spec), (''sell'', sell_spec),
      (''report'', report_spec), (''help'', help_spec)]"

fun run_handler ::
  "runtime \<Rightarrow> broker \<Rightarrow> handler \<Rightarrow> parsed_args \<Rightarrow> world \<Rightarrow> error option \<times> world" where
  "run_handler rt br Configure args w = (None, configure args w)"
| "run_handler rt br (Order side usage) args w = order rt br side usage args w"
| "run_handler rt br Report args w = report rt br w"
| "run_handler rt br Help args w = help_handler rt args w"

text \<open>
  Line 225, \<^verbatim>\<open>cli[command] || cli.help\<close>. The command is \<^verbatim>\<open>undefined\<close> when the
  process has no third argument, and the key is then the string \<^verbatim>\<open>undefined\<close>. The
  lookup yields a command's spec, or a truthy member inherited from
  \<^verbatim>\<open>Object.prototype\<close>, or nothing, and only then the spec of help.
\<close>

datatype action = Spec command_spec | ProtoMember string

definition select_action :: "string option \<Rightarrow> action" where
  "select_action command =
     (case get_property cli (case command of None \<Rightarrow> ''undefined'' | Some c \<Rightarrow> c) of
        Own spec \<Rightarrow> Spec spec
      | Proto m \<Rightarrow> ProtoMember m
      | Missing \<Rightarrow> Spec help_spec)"

text \<open>
  Lines 222 to 233. \<^verbatim>\<open>process.argv\<close> holds the interpreter, the script, the command
  and the tokens. For an inherited member, \<^verbatim>\<open>action.options\<close> and \<^verbatim>\<open>action.schema\<close>
  are \<^verbatim>\<open>undefined\<close>, so parsing has no declarations and validation is skipped, and
  calling \<^verbatim>\<open>action.fn\<close> throws. Whatever is thrown is caught and its message printed
  to the error stream.
\<close>

definition main :: "runtime \<Rightarrow> broker \<Rightarrow> string list \<Rightarrow> world \<Rightarrow> world" where
  "main rt br process_argv w =
     (let command = (case drop 2 process_argv of [] \<Rightarrow> None | c # rest \<Rightarrow> Some c);
          argv = drop 3 process_argv
      in case select_action command of
           ProtoMember m \<Rightarrow> console_error ''action.fn is not a function'' w
         | Spec act \<Rightarrow>
             (let parsedArgs = parseArgs rt argv (options act)
              in case (case schema act of
                         None \<Rightarrow> Inr parsedArgs
                       | Some sch \<Rightarrow> assertSchema parsedArgs sch) of
                   Inl e \<Rightarrow> console_error (message e) w
                 | Inr checked \<Rightarrow>
                     (case run_handler rt br (fn act) parsedArgs w of
                        (Some e, w1) \<Rightarrow> console_error (message e) w1
                      | (None, w1) \<Rightarrow> w1)))"

section \<open>Notions used to state the properties\<close>

text \<open>The rules of a schema that a parsed invocation violates, in schema order.\<close>

definition violated_rules :: "validation_rule list \<Rightarrow> parsed_args \<Rightarrow> validation_rule list" where
  "violated_rules sch args = filter (\<lambda>r. violation r args \<noteq> None) sch"

text \<open>A rule whose field name and allowed values hold no line feed: its message is
  one line.\<close>

definition single_line_rule :: "validation_rule \<Rightarrow> bool" where
  "single_line_rule r =
     (CHR 0x0A \<notin> set (fieldName r) \<and>
      (case kind r of OneOf allowed \<Rightarrow> \<forall>a\<in>set allowed. CHR 0x0A \<notin> set a | _ \<Rightarrow> True))"

text \<open>The table row of a position whose symbol and quantity are strings (lines 135
  and 136).\<close>

definition position_row :: "runtime \<Rightarrow> position \<Rightarrow> string" where
  "position_row rt p =
     padStart 8 (to_string rt (pos_symbol p)) @ padStart 8 (to_string rt (pos_qty p))
     @ padStart 10 (usd rt (pos_cost_basis p)) @ padStart 10 (usd rt (pos_market_value p))
     @ padStart 12 (usd rt (pos_unrealized_pl p))"

section \<open>A sample environment\<close>

text \<open>
  One concrete runtime, brokerage and world, on which the properties below are
  evaluated. The runtime answers only for the few strings and numbers of the
  examples, as a machine with the en-US locale does; the brokerage accepts every order
  and reports the given positions.
\<close>

definition sample_runtime :: runtime where
  "sample_runtime =
     \<lparr>isNumber = (\<lambda>s. s \<noteq> [] \<and> list_all (\<lambda>c. c \<in> set ''0123456789'') s),
      toNumber = (\<lambda>s. if s = ''0'' then Num 0 else if s = ''5'' then Num 5 else NaN),
      parseFloat = (\<lambda>s. if s = ''100'' then Num 100 else if s = ''1000'' then Num 1000
                         else if s = ''1100'' then Num 1100 else NaN),
      numToString = (\<lambda>n. if n = Num 1 then ''1'' else if n = Num 5 then ''5''
                          else if n = Num 100 then ''100'' else ''NaN''),
      add = (\<lambda>a b. case (a, b) of (Num x, Num y) \<Rightarrow> Num (x + y) | _ \<Rightarrow> NaN),
      toCurrency = (\<lambda>n. if n = Num 100 then ''$100.00'' else if n = Num 1000 then ''$1,000.00''
                         else if n = Num 1100 then ''$1,100.00'' else ''NaN'')\<rparr>"

definition sample_position :: "jsval \<Rightarrow> position" where
  "sample_position q =
     \<lparr>pos_symbol = JString ''AAPL'', pos_qty = q, pos_cost_basis = JString ''1000'',
      pos_market_value = JString ''1100'', pos_unrealized_pl = JString ''100''\<rparr>"

definition sample_broker :: "position list \<Rightarrow> broker" where
  "sample_broker ps =
     \<lparr>createOrder = (\<lambda>a req. Inr \<lparr>order_id = JString ''order-1''\<rparr>),
      getBars = (\<lambda>a timeframe symbol limit. Inr [(''AAPL'', [\<lparr>bar_c = JNumber (Num 100)\<rparr>])]),
      getPositions = (\<lambda>a. Inr ps)\<rparr>"

definition empty_world :: world where
  "empty_world = \<lparr>store = Map.empty, out = [], err = [], calls = []\<rparr>"

definition configured_world :: world where
  "configured_world =
     \<lparr>store = [''keyId'' \<mapsto> JString ''K'', ''secretKey'' \<mapsto> JString ''S''],
      out = [], err = [], calls = []\<rparr>"

section \<open>Basic facts\<close>

lemma store_console_log [simp]: "store (console_log x w) = store w"
  by (simp add: console_log_def)

lemma store_configure:
  "store (configure args w) =
    (let c0 = store w;
         c1 = (if truthy (arg args ''id'') then c0(''keyId'' \<mapsto> arg args ''id'') else c0);
         c2 = (if truthy (arg args ''secret'') then c1(''secretKey'' \<mapsto> arg args ''secret'') else c1);
         c3 = (if truthy (arg args ''mode'') then c2(''mode'' \<mapsto> arg args ''mode'') else c2)
     in (if truthy (arg args ''base-url'') then c3(''baseUrl'' \<mapsto> arg args ''base-url'') else c3))"
  by (simp add: configure_def config_set_def Let_def)

lemma getAlpaca_missing:
  "\<not> truthy (config_get c ''keyId'') \<or> \<not> truthy (config_get c ''secretKey'')
     \<Longrightarrow> getAlpaca c = Inl (Error NO_CONFIGURATION)"
  by (auto simp: getAlpaca_def Let_def)

lemma getAlpaca_configured_world:
  "getAlpaca (store configured_world)
     = Inr \<lparr>keyId = JString ''K'', secretKey = JString ''S'', paper = False,
            baseUrl = JUndefined\<rparr>"
  by (simp add: getAlpaca_def configured_world_def config_get_def)

lemma select_action_own:
  "select_action (Some ''configure'') = Spec configure_spec"
  "select_action (Some ''buy'') = Spec buy_spec"
  "select_action (Some ''sell'') = Spec sell_spec"
  "select_action (Some ''report'') = Spec report_spec"
  "select_action (Some ''help'') = Spec help_spec"
  by (simp_all add: select_action_def get_property_def cli_def)

lemma map_filter_map: "List.map_filter f xs = List.map_filter id (map f xs)"
  by (induction xs) (auto split: option.splits)

section \<open>Lines of a joined text\<close>

lemma split_lines_line:
  "CHR 0x0A \<notin> set x \<Longrightarrow> split_lines (x @ CHR 0x0A # ys) = x # split_lines ys"
  by (induction x) auto

lemma split_lines_one: "CHR 0x0A \<notin> set x \<Longrightarrow> split_lines x = [x]"
  by (induction x) auto

lemma split_lines_join:
  "xs \<noteq> [] \<Longrightarrow> \<forall>x\<in>set xs. CHR 0x0A \<notin> set x \<Longrightarrow> split_lines (join ''\<newline>'' xs) = xs"
proof (induction "''\<newline>''" xs rule: join.induct)
  case 1
  then show ?case by simp
next
  case (2 x)
  then show ?case by (simp add: split_lines_one)
next
  case (3 x y ys)
  then show ?case by (simp add: split_lines_line)
qed

lemma join_no_newline:
  "\<forall>x\<in>set xs. CHR 0x0A \<notin> set x \<Longrightarrow> CHR 0x0A \<notin> set sep \<Longrightarrow> CHR 0x0A \<notin> set (join sep xs)"
  by (induction sep xs rule: join.induct) auto

section \<open>Positional resolution of buy and sell\<close>

text \<open>
  Claim C1, as the script has it. From the positional values of a buy or sell: one
  value that is a string is the symbol, with quantity 1; two (or more) values whose
  first two are both truthy are the quantity and the symbol; a string followed by a
  falsy value is again the symbol, with quantity 1; and no value, one number, a
  number followed by a falsy value, or a falsy value followed by a truthy one, raise
  the error whose message is \<^verbatim>\<open>Usage: \<close> and the command's usage text, which the
  handler throws before any call to the brokerage.
\<close>

theorem order_positional_table:
  "order_positional usage [JString t1] = Inr (JNumber (Num 1), JString t1) \<and>
   (truthy q2 \<and> truthy s2 \<longrightarrow> order_positional usage (q2 # s2 # rest2) = Inr (q2, s2)) \<and>
   (\<not> truthy s3 \<longrightarrow>
      order_positional usage (JString t3 # s3 # rest3) = Inr (JNumber (Num 1), JString t3)) \<and>
   order_positional usage [] = Inl (Error (''Usage: '' @ usage)) \<and>
   order_positional usage [JNumber n4] = Inl (Error (''Usage: '' @ usage)) \<and>
   (\<not> truthy s5 \<and> typeof q5 \<noteq> TyString \<longrightarrow>
      order_positional usage (q5 # s5 # rest5) = Inl (Error (''Usage: '' @ usage))) \<and>
   (\<not> truthy q6 \<and> truthy s6 \<longrightarrow>
      order_positional usage (q6 # s6 # rest6) = Inl (Error (''Usage: '' @ usage))) \<and>
   (getAlpaca (store w) = Inr a \<and> order_positional usage (positional args) = Inl e \<longrightarrow>
      order rt br side usage args w = (Some e, w))"
  by (auto simp: order_positional_def element_def order_def Let_def)

theorem order_positional_table_witness:
  "(truthy (JNumber (Num 5)) \<and> truthy (JString ''AAPL'')) \<and>
   order_positional BUY_USAGE [JNumber (Num 5), JString ''AAPL'']
     = Inr (JNumber (Num 5), JString ''AAPL'') \<and>
   \<not> truthy (JString []) \<and>
   order_positional BUY_USAGE [JString ''AAPL'', JString []]
     = Inr (JNumber (Num 1), JString ''AAPL'') \<and>
   (\<not> truthy (JNumber (Num 0)) \<and> typeof (JNumber (Num 5)) \<noteq> TyString) \<and>
   order_positional BUY_USAGE [JNumber (Num 5), JNumber (Num 0)]
     = Inl (Error (''Usage: '' @ BUY_USAGE)) \<and>
   (\<not> truthy (JNumber (Num 0)) \<and> truthy (JString ''AAPL'')) \<and>
   order_positional BUY_USAGE [JNumber (Num 0), JString ''AAPL'']
     = Inl (Error (''Usage: '' @ BUY_USAGE)) \<and>
   (getAlpaca (store configured_world)
      = Inr \<lparr>keyId = JString ''K'', secretKey = JString ''S'', paper = False,
             baseUrl = JUndefined\<rparr> \<and>
    order_positional BUY_USAGE (positional \<lparr>positional = [], named = []\<rparr>)
      = Inl (Error (''Usage: '' @ BUY_USAGE))) \<and>
   order sample_runtime (sample_broker []) ''buy'' BUY_USAGE \<lparr>positional = [], named = []\<rparr>
       configured_world
     = (Some (Error (''Usage: '' @ BUY_USAGE)), configured_world)"
proof -
  have h2: "truthy (JNumber (Num 5)) \<and> truthy (JString ''AAPL'')" by simp
  have h3: "\<not> truthy (JString [])" by simp
  have h5: "\<not> truthy (JNumber (Num 0)) \<and> typeof (JNumber (Num 5)) \<noteq> TyString" by simp
  have h6: "\<not> truthy (JNumber (Num 0)) \<and> truthy (JString ''AAPL'')" by simp
  have h8: "getAlpaca (store configured_world)
      = Inr \<lparr>keyId = JString ''K'', secretKey = JString ''S'', paper = False,
             baseUrl = JUndefined\<rparr> \<and>
    order_positional BUY_USAGE (positional \<lparr>positional = [], named = []\<rparr>)
      = Inl (Error (''Usage: '' @ BUY_USAGE))"
    by (simp add: getAlpaca_configured_world order_positional_def element_def)
  from h2 h3 h5 h6 h8
    order_positional_table [of BUY_USAGE "''AAPL''" "JNumber (Num 5)" "JString ''AAPL''" "[]"
      "JString []" "''AAPL''" "[]" "Num 5" "JNumber (Num 0)" "JNumber (Num 5)" "[]"
      "JNumber (Num 0)" "JString ''AAPL''" "[]" configured_world
      "\<lparr>keyId = JString ''K'', secretKey = JString ''S'', paper = False, baseUrl = JUndefined\<rparr>"
      "\<lparr>positional = [], named = []\<rparr>" "Error (''Usage: '' @ BUY_USAGE)"
      sample_runtime "sample_broker []" "''buy''"]
  show ?thesis by blast
qed

text \<open>With the two values \<^verbatim>\<open>0\<close> and \<^verbatim>\<open>AAPL\<close> (\<^verbatim>\<open>alpaca buy 0 AAPL\<close>) the first is not
  taken as the quantity: the handler raises the usage error.\<close>

theorem order_positional_zero_quantity:
  "order_positional BUY_USAGE [JNumber (Num 0), JString ''AAPL'']
     = Inl (Error (''Usage: '' @ BUY_USAGE)) \<and>
   order_positional BUY_USAGE [JNumber (Num 0), JString ''AAPL'']
     \<noteq> Inr (JNumber (Num 0), JString ''AAPL'')"
  by (simp add: order_positional_def element_def)

section \<open>The validator reports every violation\<close>

lemma map_filter_violated:
  "List.map_filter (\<lambda>r. violation r args) sch
     = map (\<lambda>r. the (violation r args)) (violated_rules sch args)"
  by (induction sch) (auto simp: violated_rules_def)

lemma kind_message_single_line:
  "single_line_rule r \<Longrightarrow> CHR 0x0A \<notin> set (kind_message (fieldName r) (kind r))"
  by (cases "kind r") (auto simp: single_line_rule_def quoted_def join_no_newline)

lemma violation_single_line:
  "single_line_rule r \<Longrightarrow> violation r args = Some m \<Longrightarrow> CHR 0x0A \<notin> set m"
  using kind_message_single_line [of r]
  by (auto simp: violation_def quoted_def single_line_rule_def split: if_splits)

lemma program_schemas_single_line:
  "sch = orderSchema \<or> sch = configureSchema \<Longrightarrow> \<forall>r\<in>set sch. single_line_rule r"
  by (elim disjE) (simp_all add: orderSchema_def configureSchema_def single_line_rule_def)

lemma assertSchema_lines:
  assumes "\<forall>r\<in>set sch. single_line_rule r"
  shows "(violated_rules sch args = [] \<longrightarrow> assertSchema args sch = Inr args) \<and>
         (violated_rules sch args \<noteq> [] \<longrightarrow>
            (\<exists>m. assertSchema args sch = Inl (Error m) \<and>
                 split_lines m = map (\<lambda>r. the (violation r args)) (violated_rules sch args)))"
proof -
  let ?vs = "map (\<lambda>r. the (violation r args)) (violated_rules sch args)"
  have "\<forall>x\<in>set ?vs. CHR 0x0A \<notin> set x"
    using assms violation_single_line by (fastforce simp: violated_rules_def)
  then have "?vs \<noteq> [] \<Longrightarrow> split_lines (join ''\<newline>'' ?vs) = ?vs"
    by (rule split_lines_join [rotated])
  then show ?thesis
    by (auto simp: assertSchema_def joi_validate_def map_filter_violated Let_def)
qed

lemma violations_two_bogus:
  "arg args ''type'' = JString t \<Longrightarrow> t \<notin> {''market'', ''limit'', ''stop'', ''stop_limit''} \<Longrightarrow>
   arg args ''time-in-force'' = JString f \<Longrightarrow> f \<notin> {''day'', ''gtc'', ''opg'', ''ioc''} \<Longrightarrow>
   arg args ''limit-price'' = JUndefined \<Longrightarrow> arg args ''stop-price'' = JUndefined \<Longrightarrow>
   arg args ''client-order-id'' = JUndefined \<Longrightarrow>
   map (\<lambda>r. violation r args) orderSchema =
     [None, Some (quoted ''type'' @ '' must be one of [market, limit, stop, stop_limit]''),
      Some (quoted ''time-in-force'' @ '' must be one of [day, gtc, opg, ioc]''),
      None, None, None]"
  unfolding orderSchema_def violation_def by simp

lemma assertSchema_two_bogus:
  "arg args ''type'' = JString t \<Longrightarrow> t \<notin> {''market'', ''limit'', ''stop'', ''stop_limit''} \<Longrightarrow>
   arg args ''time-in-force'' = JString f \<Longrightarrow> f \<notin> {''day'', ''gtc'', ''opg'', ''ioc''} \<Longrightarrow>
   arg args ''limit-price'' = JUndefined \<Longrightarrow> arg args ''stop-price'' = JUndefined \<Longrightarrow>
   arg args ''client-order-id'' = JUndefined \<Longrightarrow>
   assertSchema args orderSchema =
     Inl (Error (quoted ''type'' @ '' must be one of [market, limit, stop, stop_limit]\<newline>''
                 @ quoted ''time-in-force'' @ '' must be one of [day, gtc, opg, ioc]''))"
  unfolding assertSchema_def joi_validate_def
  by (subst map_filter_map) (simp add: violations_two_bogus)

text \<open>
  Claim C2. For the two validation schemas of the program and every parsed
  invocation, the validator with \<^verbatim>\<open>abortEarly: false\<close> returns the message of every
  violated rule; \<^verbatim>\<open>assertSchema\<close> returns the invocation when no rule is violated and
  otherwise raises an error whose message has exactly one line per violated rule, in
  schema order. An order invocation whose type and time-in-force are both outside their
  allowed sets (and with no other option set) fails with exactly two lines, which
  differ.
\<close>

theorem assertSchema_reports_all:
  "(sch = orderSchema \<or> sch = configureSchema \<longrightarrow>
      joi_validate args sch False = map (\<lambda>r. the (violation r args)) (violated_rules sch args) \<and>
      (violated_rules sch args = [] \<longrightarrow> assertSchema args sch = Inr args) \<and>
      (violated_rules sch args \<noteq> [] \<longrightarrow>
         (\<exists>m. assertSchema args sch = Inl (Error m) \<and>
              split_lines m = map (\<lambda>r. the (violation r args)) (violated_rules sch args)))) \<and>
   (arg args2 ''type'' = JString t \<and> t \<notin> {''market'', ''limit'', ''stop'', ''stop_limit''} \<and>
    arg args2 ''time-in-force'' = JString f \<and> f \<notin> {''day'', ''gtc'', ''opg'', ''ioc''} \<and>
    arg args2 ''limit-price'' = JUndefined \<and> arg args2 ''stop-price'' = JUndefined \<and>
    arg args2 ''client-order-id'' = JUndefined \<longrightarrow>
      assertSchema args2 orderSchema =
        Inl (Error (quoted ''type'' @ '' must be one of [market, limit, stop, stop_limit]\<newline>''
                    @ quoted ''time-in-force'' @ '' must be one of [day, gtc, opg, ioc]'')) \<and>
      split_lines (quoted ''type'' @ '' must be one of [market, limit, stop, stop_limit]\<newline>''
                    @ quoted ''time-in-force'' @ '' must be one of [day, gtc, opg, ioc]'') =
        [quoted ''type'' @ '' must be one of [market, limit, stop, stop_limit]'',
         quoted ''time-in-force'' @ '' must be one of [day, gtc, opg, ioc]''] \<and>
      quoted ''type'' @ '' must be one of [market, limit, stop, stop_limit]''
        \<noteq> quoted ''time-in-force'' @ '' must be one of [day, gtc, opg, ioc]'')"
proof (intro conjI impI)
  assume "sch = orderSchema \<or> sch = configureSchema"
  then have sl: "\<forall>r\<in>set sch. single_line_rule r"
    by (rule program_schemas_single_line)
  show "joi_validate args sch False = map (\<lambda>r. the (violation r args)) (violated_rules sch args)"
    by (simp add: joi_validate_def map_filter_violated)
  show "violated_rules sch args = [] \<Longrightarrow> assertSchema args sch = Inr args"
    using assertSchema_lines [OF sl, of args] by simp
  show "violated_rules sch args \<noteq> [] \<Longrightarrow>
         (\<exists>m. assertSchema args sch = Inl (Error m) \<and>
              split_lines m = map (\<lambda>r. the (violation r args)) (violated_rules sch args))"
    using assertSchema_lines [OF sl, of args] by simp
next
  assume "arg args2 ''type'' = JString t \<and> t \<notin> {''market'', ''limit'', ''stop'', ''stop_limit''} \<and>
    arg args2 ''time-in-force'' = JString f \<and> f \<notin> {''day'', ''gtc'', ''opg'', ''ioc''} \<and>
    arg args2 ''limit-price'' = JUndefined \<and> arg args2 ''stop-price'' = JUndefined \<and>
    arg args2 ''client-order-id'' = JUndefined"
  then show "assertSchema args2 orderSchema =
        Inl (Error (quoted ''type'' @ '' must be one of [market, limit, stop, stop_limit]\<newline>''
                    @ quoted ''time-in-force'' @ '' must be one of [day, gtc, opg, ioc]''))"
    using assertSchema_two_bogus [of args2 t f] by blast
next
  show "split_lines (quoted ''type'' @ '' must be one of [market, limit, stop, stop_limit]\<newline>''
                    @ quoted ''time-in-force'' @ '' must be one of [day, gtc, opg, ioc]'') =
        [quoted ''type'' @ '' must be one of [market, limit, stop, stop_limit]'',
         quoted ''time-in-force'' @ '' must be one of [day, gtc, opg, ioc]'']"
    by (simp add: quoted_def)
next
  show "quoted ''type'' @ '' must be one of [market, limit, stop, stop_limit]''
        \<noteq> quoted ''time-in-force'' @ '' must be one of [day, gtc, opg, ioc]''"
    by (simp add: quoted_def)
qed

section \<open>Defaults of the option declarations\<close>

lemma parse_tokens_positional_only:
  "\<forall>t\<in>set ts. flag_token t = None \<Longrightarrow>
     parse_tokens rt decls ts acc = acc\<lparr>positional := positional acc @ map (positional_value rt) ts\<rparr>"
  by (induction ts arbitrary: acc) auto

lemma apply_defaults_keeps:
  "map_of kvs k = Some v \<Longrightarrow> map_of (apply_defaults ds kvs) k = Some v"
  by (induction ds arbitrary: kvs) (auto split: option.splits)

lemma apply_defaults_default:
  "d \<in> set ds \<Longrightarrow> dflt d = Some v \<Longrightarrow> map_of kvs (flagName d) = None \<Longrightarrow>
   distinct (map flagName ds) \<Longrightarrow> map_of (apply_defaults ds kvs) (flagName d) = Some v"
proof (induction ds arbitrary: kvs)
  case Nil
  then show ?case by simp
next
  case (Cons d' ds)
  show ?case
  proof (cases "d = d'")
    case True
    with Cons.prems have "map_of (kvs @ [(flagName d', v)]) (flagName d') = Some v"
      by (simp add: map_add_def)
    with True Cons.prems show ?thesis
      by (simp add: apply_defaults_keeps)
  next
    case False
    with Cons.prems have in_tl: "d \<in> set ds" and ne: "flagName d' \<noteq> flagName d"
      by auto
    from Cons.prems have dist: "distinct (map flagName ds)" by simp
    show ?thesis
    proof (cases "dflt d'")
      case None
      with Cons.IH [OF in_tl Cons.prems(2) Cons.prems(3) dist] show ?thesis by simp
    next
      case (Some v')
      have "map_of (kvs @ [(flagName d', v')]) (flagName d) = None"
        using Cons.prems(3) ne by (simp add: map_add_def)
      with Cons.IH [OF in_tl Cons.prems(2) _ dist]
        Cons.IH [OF in_tl Cons.prems(2) Cons.prems(3) dist] Some
      show ?thesis by simp
    qed
  qed
qed

lemma cli_options_distinct:
  "spec \<in> snd ` set cli \<Longrightarrow> distinct (map flagName (options spec))"
  by (auto simp: cli_def configure_spec_def buy_spec_def sell_spec_def report_spec_def
        help_spec_def orderOptions_def configureOptions_def)

lemma parseArgs_no_flags:
  "\<forall>t\<in>set argv. flag_token t = None \<Longrightarrow>
     parseArgs rt argv decls =
       \<lparr>positional = map (positional_value rt) argv, named = apply_defaults decls []\<rparr>"
  by (simp add: parseArgs_def parse_tokens_positional_only)

lemma flag_token_AAPL: "flag_token ''AAPL'' = None"
  by (simp add: flag_token_def)

lemma parseArgs_buy_AAPL:
  "\<not> isNumber rt ''AAPL'' \<Longrightarrow>
     parseArgs rt [''AAPL''] orderOptions =
       \<lparr>positional = [JString ''AAPL''],
        named = [(''type'', JString ''market''), (''time-in-force'', JString ''gtc'')]\<rparr>"
  by (simp add: parseArgs_no_flags flag_token_AAPL positional_value_def orderOptions_def)

lemma violations_buy_AAPL:
  "map (\<lambda>r. violation r \<lparr>positional = [JString ''AAPL''],
        named = [(''type'', JString ''market''), (''time-in-force'', JString ''gtc'')]\<rparr>) orderSchema
     = [None, None, None, None, None, None]"
  unfolding orderSchema_def violation_def by (simp add: arg_def)

lemma assertSchema_buy_AAPL:
  "assertSchema \<lparr>positional = [JString ''AAPL''],
        named = [(''type'', JString ''market''), (''time-in-force'', JString ''gtc'')]\<rparr> orderSchema
     = Inr \<lparr>positional = [JString ''AAPL''],
        named = [(''type'', JString ''market''), (''time-in-force'', JString ''gtc'')]\<rparr>"
  unfolding assertSchema_def joi_validate_def
  by (subst map_filter_map) (simp add: violations_buy_AAPL)

text \<open>
  Claim C3. For every command of the table, an invocation whose tokens hold no flag
  receives every default that the command's option declarations give. In
  particular, when \<^verbatim>\<open>AAPL\<close> is not numeric-looking, \<^verbatim>\<open>buy AAPL\<close> is parsed to the
  positional value \<^verbatim>\<open>AAPL\<close> with type \<^verbatim>\<open>market\<close> and time-in-force \<^verbatim>\<open>gtc\<close>, its
  quantity resolves to 1, and it passes validation.
\<close>

theorem defaults_applied:
  "(spec \<in> snd ` set cli \<and> (\<forall>t\<in>set argv. flag_token t = None) \<and>
    d \<in> set (options spec) \<and> dflt d = Some v \<longrightarrow>
      arg (parseArgs rt argv (options spec)) (flagName d) = v) \<and>
   (\<not> isNumber rt ''AAPL'' \<longrightarrow>
      parseArgs rt [''AAPL''] orderOptions =
        \<lparr>positional = [JString ''AAPL''],
         named = [(''type'', JString ''market''), (''time-in-force'', JString ''gtc'')]\<rparr> \<and>
      order_positional BUY_USAGE (positional (parseArgs rt [''AAPL''] orderOptions))
        = Inr (JNumber (Num 1), JString ''AAPL'') \<and>
      assertSchema (parseArgs rt [''AAPL''] orderOptions) orderSchema
        = Inr (parseArgs rt [''AAPL''] orderOptions))"
proof (intro conjI impI)
  assume h: "spec \<in> snd ` set cli \<and> (\<forall>t\<in>set argv. flag_token t = None) \<and>
    d \<in> set (options spec) \<and> dflt d = Some v"
  then have "map_of (apply_defaults (options spec) []) (flagName d) = Some v"
    using apply_defaults_default [of d "options spec" v "[]"] cli_options_distinct [of spec]
    by simp
  with h show "arg (parseArgs rt argv (options spec)) (flagName d) = v"
    by (simp add: parseArgs_no_flags arg_def)
next
  assume n: "\<not> isNumber rt ''AAPL''"
  show "parseArgs rt [''AAPL''] orderOptions =
        \<lparr>positional = [JString ''AAPL''],
         named = [(''type'', JString ''market''), (''time-in-force'', JString ''gtc'')]\<rparr>"
    using n by (rule parseArgs_buy_AAPL)
  show "order_positional BUY_USAGE (positional (parseArgs rt [''AAPL''] orderOptions))
        = Inr (JNumber (Num 1), JString ''AAPL'')"
    by (simp add: parseArgs_buy_AAPL [OF n] order_positional_def element_def)
  show "assertSchema (parseArgs rt [''AAPL''] orderOptions) orderSchema
        = Inr (parseArgs rt [''AAPL''] orderOptions)"
    by (simp only: parseArgs_buy_AAPL [OF n] assertSchema_buy_AAPL)
qed

theorem defaults_applied_witness:
  "buy_spec \<in> snd ` set cli \<and> flag_token ''AAPL'' = None \<and>
   \<lparr>flagName = ''type'', otype = OString, dflt = Some (JString ''market'')\<rparr>
      \<in> set (options buy_spec) \<and>
   dflt \<lparr>flagName = ''type'', otype = OString, dflt = Some (JString ''market'')\<rparr>
      = Some (JString ''market'') \<and>
   \<not> isNumber sample_runtime ''AAPL'' \<and>
   arg (parseArgs sample_runtime [''AAPL''] (options buy_spec))
     (flagName \<lparr>flagName = ''type'', otype = OString, dflt = Some (JString ''market'')\<rparr>)
     = JString ''market'' \<and>
   parseArgs sample_runtime [''AAPL''] orderOptions =
     \<lparr>positional = [JString ''AAPL''],
      named = [(''type'', JString ''market''), (''time-in-force'', JString ''gtc'')]\<rparr> \<and>
   order_positional BUY_USAGE (positional (parseArgs sample_runtime [''AAPL''] orderOptions))
     = Inr (JNumber (Num 1), JString ''AAPL'') \<and>
   assertSchema (parseArgs sample_runtime [''AAPL''] orderOptions) orderSchema
     = Inr (parseArgs sample_runtime [''AAPL''] orderOptions)"
proof -
  have h1: "buy_spec \<in> snd ` set cli \<and> (\<forall>t\<in>set [''AAPL'']. flag_token t = None) \<and>
    \<lparr>flagName = ''type'', otype = OString, dflt = Some (JString ''market'')\<rparr>
      \<in> set (options buy_spec) \<and>
    dflt \<lparr>flagName = ''type'', otype = OString, dflt = Some (JString ''market'')\<rparr>
      = Some (JString ''market'')"
    by (simp add: cli_def buy_spec_def orderOptions_def flag_token_AAPL)
  have h2: "\<not> isNumber sample_runtime ''AAPL''"
    by (simp add: sample_runtime_def)
  from h1 h2 flag_token_AAPL defaults_applied [of buy_spec "[''AAPL'']"
      "\<lparr>flagName = ''type'', otype = OString, dflt = Some (JString ''market'')\<rparr>"
      "JString ''market''" sample_runtime]
  show ?thesis by blast
qed

text \<open>The two invocations on which the validator is evaluated: one that violates no
  rule and one that violates two.\<close>

lemma violated_rules_buy_AAPL:
  "violated_rules orderSchema \<lparr>positional = [JString ''AAPL''],
        named = [(''type'', JString ''market''), (''time-in-force'', JString ''gtc'')]\<rparr> = []"
proof -
  have sl: "\<forall>r\<in>set orderSchema. single_line_rule r"
    by (rule program_schemas_single_line) simp
  show ?thesis
    using assertSchema_lines [OF sl, of "\<lparr>positional = [JString ''AAPL''],
        named = [(''type'', JString ''market''), (''time-in-force'', JString ''gtc'')]\<rparr>"]
    by (auto simp only: assertSchema_buy_AAPL)
qed

lemma arg_bogus:
  "arg \<lparr>positional = [JString ''AAPL''],
        named = [(''type'', JString ''bogus''), (''time-in-force'', JString ''bogus'')]\<rparr> ''type''
     = JString ''bogus''"
  "arg \<lparr>positional = [JString ''AAPL''],
        named = [(''type'', JString ''bogus''), (''time-in-force'', JString ''bogus'')]\<rparr> ''time-in-force''
     = JString ''bogus''"
  "arg \<lparr>positional = [JString ''AAPL''],
        named = [(''type'', JString ''bogus''), (''time-in-force'', JString ''bogus'')]\<rparr> ''limit-price''
     = JUndefined"
  "arg \<lparr>positional = [JString ''AAPL''],
        named = [(''type'', JString ''bogus''), (''time-in-force'', JString ''bogus'')]\<rparr> ''stop-price''
     = JUndefined"
  "arg \<lparr>positional = [JString ''AAPL''],
        named = [(''type'', JString ''bogus''), (''time-in-force'', JString ''bogus'')]\<rparr> ''client-order-id''
     = JUndefined"
  by (simp_all add: arg_def)

lemma assertSchema_bogus:
  "assertSchema \<lparr>positional = [JString ''AAPL''],
        named = [(''type'', JString ''bogus''), (''time-in-force'', JString ''bogus'')]\<rparr> orderSchema
     = Inl (Error (quoted ''type'' @ '' must be one of [market, limit, stop, stop_limit]\<newline>''
                    @ quoted ''time-in-force'' @ '' must be one of [day, gtc, opg, ioc]''))"
  by (rule assertSchema_two_bogus [OF arg_bogus(1) _ arg_bogus(2) _ arg_bogus(3) arg_bogus(4) arg_bogus(5)])
     simp_all

lemma violated_rules_bogus:
  "violated_rules orderSchema \<lparr>positional = [JString ''AAPL''],
        named = [(''type'', JString ''bogus''), (''time-in-force'', JString ''bogus'')]\<rparr> \<noteq> []"
proof -
  have sl: "\<forall>r\<in>set orderSchema. single_line_rule r"
    by (rule program_schemas_single_line) simp
  show ?thesis
    using assertSchema_lines [OF sl, of "\<lparr>positional = [JString ''AAPL''],
        named = [(''type'', JString ''bogus''), (''time-in-force'', JString ''bogus'')]\<rparr>"]
    by (auto simp only: assertSchema_bogus)
qed

theorem assertSchema_reports_all_witness:
  "(orderSchema = orderSchema \<or> orderSchema = configureSchema) \<and>
   violated_rules orderSchema \<lparr>positional = [JString ''AAPL''],
        named = [(''type'', JString ''market''), (''time-in-force'', JString ''gtc'')]\<rparr> = [] \<and>
   assertSchema \<lparr>positional = [JString ''AAPL''],
        named = [(''type'', JString ''market''), (''time-in-force'', JString ''gtc'')]\<rparr> orderSchema
     = Inr \<lparr>positional = [JString ''AAPL''],
        named = [(''type'', JString ''market''), (''time-in-force'', JString ''gtc'')]\<rparr> \<and>
   violated_rules orderSchema \<lparr>positional = [JString ''AAPL''],
        named = [(''type'', JString ''bogus''), (''time-in-force'', JString ''bogus'')]\<rparr> \<noteq> [] \<and>
   (arg \<lparr>positional = [JString ''AAPL''],
        named = [(''type'', JString ''bogus''), (''time-in-force'', JString ''bogus'')]\<rparr> ''type''
      = JString ''bogus'' \<and>
    ''bogus'' \<notin> {''market'', ''limit'', ''stop'', ''stop_limit''} \<and>
    arg \<lparr>positional = [JString ''AAPL''],
        named = [(''type'', JString ''bogus''), (''time-in-force'', JString ''bogus'')]\<rparr> ''time-in-force''
      = JString ''bogus'' \<and>
    ''bogus'' \<notin> {''day'', ''gtc'', ''opg'', ''ioc''} \<and>
    arg \<lparr>positional = [JString ''AAPL''],
        named = [(''type'', JString ''bogus''), (''time-in-force'', JString ''bogus'')]\<rparr> ''limit-price''
      = JUndefined \<and>
    arg \<lparr>positional = [JString ''AAPL''],
        named = [(''type'', JString ''bogus''), (''time-in-force'', JString ''bogus'')]\<rparr> ''stop-price''
      = JUndefined \<and>
    arg \<lparr>positional = [JString ''AAPL''],
        named = [(''type'', JString ''bogus''), (''time-in-force'', JString ''bogus'')]\<rparr> ''client-order-id''
      = JUndefined) \<and>
   assertSchema \<lparr>positional = [JString ''AAPL''],
        named = [(''type'', JString ''bogus''), (''time-in-force'', JString ''bogus'')]\<rparr> orderSchema
     = Inl (Error (quoted ''type'' @ '' must be one of [market, limit, stop, stop_limit]\<newline>''
                    @ quoted ''time-in-force'' @ '' must be one of [day, gtc, opg, ioc]'')) \<and>
   (\<exists>m. assertSchema \<lparr>positional = [JString ''AAPL''],
        named = [(''type'', JString ''bogus''), (''time-in-force'', JString ''bogus'')]\<rparr> orderSchema
          = Inl (Error m) \<and>
        split_lines m =
          map (\<lambda>r. the (violation r \<lparr>positional = [JString ''AAPL''],
                 named = [(''type'', JString ''bogus''), (''time-in-force'', JString ''bogus'')]\<rparr>))
            (violated_rules orderSchema \<lparr>positional = [JString ''AAPL''],
                 named = [(''type'', JString ''bogus''), (''time-in-force'', JString ''bogus'')]\<rparr>))"
  (is "?S \<and> ?G0 \<and> ?G1 \<and> ?B0 \<and> ?H \<and> ?B1 \<and> ?B2")
proof -
  let ?good = "\<lparr>positional = [JString ''AAPL''],
        named = [(''type'', JString ''market''), (''time-in-force'', JString ''gtc'')]\<rparr>"
  let ?bad = "\<lparr>positional = [JString ''AAPL''],
        named = [(''type'', JString ''bogus''), (''time-in-force'', JString ''bogus'')]\<rparr>"
  have s: ?S by simp
  have g0: ?G0 by (rule violated_rules_buy_AAPL)
  have b0: ?B0 by (rule violated_rules_bogus)
  have h: ?H by (simp add: arg_bogus)
  note g = assertSchema_reports_all [of orderSchema ?good ?bad "''bogus''" "''bogus''"]
  note b = assertSchema_reports_all [of orderSchema ?bad ?bad "''bogus''" "''bogus''"]
  from g s g0 have g1: ?G1 by blast
  from b h have b1: ?B1 by blast
  from b s b0 have b2: ?B2 by blast
  show ?thesis
    by (rule conjI [OF s conjI [OF g0 conjI [OF g1 conjI [OF b0 conjI [OF h conjI [OF b1 b2]]]]]])
qed

section \<open>Dispatch\<close>

text \<open>
  Claim C4. When the selected command has a validation schema and validation of the
  parsed tokens fails, the run ends with the message of the validation error on the
  error stream and nothing else: the store, the calls to the brokerage and the normal
  output are as before, whatever the brokerage would have answered. The report and
  help commands have no schema, and their handlers run on the parsed tokens directly.
\<close>

theorem validation_failure_aborts:
  "(select_action (Some c) = Spec act \<and> schema act = Some sch \<and>
    assertSchema (parseArgs rt argv (options act)) sch = Inl e \<longrightarrow>
      main rt br (node # script # c # argv) w = console_error (message e) w \<and>
      store (main rt br (node # script # c # argv) w) = store w \<and>
      calls (main rt br (node # script # c # argv) w) = calls w \<and>
      out (main rt br (node # script # c # argv) w) = out w \<and>
      err (main rt br (node # script # c # argv) w) = err w @ [message e]) \<and>
   schema report_spec = None \<and> schema help_spec = None \<and>
   main rt br (node # script # ''report'' # argv) w =
     (case report rt br w of (Some e, w1) \<Rightarrow> console_error (message e) w1 | (None, w1) \<Rightarrow> w1) \<and>
   main rt br (node # script # ''help'' # argv) w =
     (case help_handler rt (parseArgs rt argv []) w of
        (Some e, w1) \<Rightarrow> console_error (message e) w1 | (None, w1) \<Rightarrow> w1)"
  by (simp add: main_def select_action_own console_error_def report_spec_def help_spec_def)

lemma flag_token_type_bogus: "flag_token ''--type=bogus'' = Some (''type'', Some ''bogus'')"
  by (simp add: flag_token_def)

lemma parseArgs_type_bogus:
  "parseArgs sample_runtime [''AAPL'', ''--type=bogus''] orderOptions
     = \<lparr>positional = [JString ''AAPL''],
        named = [(''type'', JString ''bogus''), (''time-in-force'', JString ''gtc'')]\<rparr>"
  by (simp add: parseArgs_def flag_token_AAPL flag_token_type_bogus positional_value_def
        set_flag_def coerce_def decl_type_def orderOptions_def sample_runtime_def)

lemma violations_type_bogus:
  "map (\<lambda>r. violation r \<lparr>positional = [JString ''AAPL''],
        named = [(''type'', JString ''bogus''), (''time-in-force'', JString ''gtc'')]\<rparr>) orderSchema
     = [None, Some (quoted ''type'' @ '' must be one of [market, limit, stop, stop_limit]''),
        None, None, None, None]"
  unfolding orderSchema_def violation_def by (simp add: arg_def)

lemma assertSchema_type_bogus:
  "assertSchema (parseArgs sample_runtime [''AAPL'', ''--type=bogus''] (options buy_spec)) orderSchema
     = Inl (Error (quoted ''type'' @ '' must be one of [market, limit, stop, stop_limit]''))"
  unfolding assertSchema_def joi_validate_def
  by (subst map_filter_map) (simp add: buy_spec_def parseArgs_type_bogus violations_type_bogus)

theorem validation_failure_aborts_witness:
  "(select_action (Some ''buy'') = Spec buy_spec \<and> schema buy_spec = Some orderSchema \<and>
    assertSchema (parseArgs sample_runtime [''AAPL'', ''--type=bogus''] (options buy_spec)) orderSchema
      = Inl (Error (quoted ''type'' @ '' must be one of [market, limit, stop, stop_limit]''))) \<and>
   main sample_runtime (sample_broker []) [''node'', ''alpaca'', ''buy'', ''AAPL'', ''--type=bogus'']
       configured_world
     = console_error
         (message (Error (quoted ''type'' @ '' must be one of [market, limit, stop, stop_limit]'')))
         configured_world \<and>
   calls (main sample_runtime (sample_broker [])
            [''node'', ''alpaca'', ''buy'', ''AAPL'', ''--type=bogus''] configured_world)
     = calls configured_world"
proof -
  have h: "select_action (Some ''buy'') = Spec buy_spec \<and> schema buy_spec = Some orderSchema \<and>
    assertSchema (parseArgs sample_runtime [''AAPL'', ''--type=bogus''] (options buy_spec)) orderSchema
      = Inl (Error (quoted ''type'' @ '' must be one of [market, limit, stop, stop_limit]''))"
    by (simp add: select_action_own assertSchema_type_bogus) (simp add: buy_spec_def)
  from h validation_failure_aborts [of "''buy''" buy_spec orderSchema sample_runtime
      "[''AAPL'', ''--type=bogus'']"
      "Error (quoted ''type'' @ '' must be one of [market, limit, stop, stop_limit]'')"
      "sample_broker []" "''node''" "''alpaca''" configured_world]
  show ?thesis by blast
qed

text \<open>
  Claim C5, at the input \<^verbatim>\<open>alpaca constructor\<close>. The lookup \<^verbatim>\<open>cli[command]\<close> finds
  the member \<^verbatim>\<open>constructor\<close> inherited from \<^verbatim>\<open>Object.prototype\<close>, which is truthy, so
  the fallback to help is not taken: the run ends with a type error on the error
  stream and prints no help.
\<close>

theorem inherited_member_not_help:
  "select_action (Some ''constructor'') = ProtoMember ''constructor'' \<and>
   select_action (Some ''constructor'') \<noteq> Spec help_spec \<and>
   main rt br [''node'', ''alpaca'', ''constructor''] w
     = console_error ''action.fn is not a function'' w"
  by (simp add: main_def select_action_def get_property_def cli_def object_prototype_keys_def)

text \<open>Every other unrecognized command name, and a missing command, do route to help.\<close>

lemma unrecognized_routes_to_help:
  "c \<notin> {''configure'', ''buy'', ''sell'', ''report'', ''help''} \<Longrightarrow>
   c \<notin> set object_prototype_keys \<Longrightarrow> select_action (Some c) = Spec help_spec"
  by (simp add: select_action_def get_property_def cli_def)

lemma no_command_routes_to_help: "select_action None = Spec help_spec"
  by (simp add: select_action_def get_property_def cli_def object_prototype_keys_def)

section \<open>Properties of the help handler\<close>

text \<open>
  Claim C6, at the input \<^verbatim>\<open>alpaca help constructor\<close>. The lookup
  \<^verbatim>\<open>HELP_DETAILS[command]\<close> finds the inherited member \<^verbatim>\<open>constructor\<close>, so no error
  is raised for this unrecognized topic: the member itself is printed.
\<close>

theorem help_inherited_member:
  "help_handler rt \<lparr>positional = [JString ''constructor''], named = []\<rparr> w
     = (None, console_log (Inherited ''constructor'') w)"
  by (simp add: help_handler_def element_def get_property_def HELP_DETAILS_def
        object_prototype_keys_def)

text \<open>The rest of the claim holds: no positional value prints the command list, a
  command name prints its details, and any other truthy topic that is not a member of
  \<^verbatim>\<open>Object.prototype\<close> raises the error naming it.\<close>

lemma help_no_argument:
  "positional args = [] \<Longrightarrow> help_handler rt args w = (None, console_log (Text HELP) w)"
  by (simp add: help_handler_def element_def)

lemma help_buy:
  "help_handler rt \<lparr>positional = [JString ''buy''], named = []\<rparr> w
     = (None, console_log (Text (BUY_USAGE @ ''\<newline>\<newline>Buys a stock'')) w)"
  by (simp add: help_handler_def element_def get_property_def HELP_DETAILS_def BUY_USAGE_def)

lemma help_unknown:
  "t \<noteq> [] \<Longrightarrow> t \<notin> {''configure'', ''buy'', ''sell'', ''report'', ''help''} \<Longrightarrow>
   t \<notin> set object_prototype_keys \<Longrightarrow>
   help_handler rt \<lparr>positional = JString t # rest, named = kvs\<rparr> w
     = (Some (Error ([CHR 0x27] @ t @ [CHR 0x27] @ '' is not an alpaca command. See ''
                     @ [CHR 0x27] @ ''alpaca help'' @ [CHR 0x27])), w)"
  by (simp add: help_handler_def element_def get_property_def HELP_DETAILS_def)

section \<open>Missing credentials\<close>

text \<open>
  Claim C7. When the store has no truthy keyId or no truthy secretKey, the handlers of
  buy, sell and report throw the error whose message is \<open>NO_CONFIGURATION\<close> (it sends
  the user to \<^verbatim>\<open>alpaca help configure\<close>) and leave the world as it was, with no call
  to the brokerage; a run of \<^verbatim>\<open>alpaca report\<close>, and a run of buy or sell whose tokens
  pass validation, print that message on the error stream.
\<close>

theorem missing_credentials:
  "\<not> truthy (config_get (store w) ''keyId'') \<or> \<not> truthy (config_get (store w) ''secretKey'') \<Longrightarrow>
     run_handler rt br (fn buy_spec) args w = (Some (Error NO_CONFIGURATION), w) \<and>
     run_handler rt br (fn sell_spec) args w = (Some (Error NO_CONFIGURATION), w) \<and>
     run_handler rt br (fn report_spec) args w = (Some (Error NO_CONFIGURATION), w) \<and>
     main rt br (node # script # ''report'' # argv) w = console_error NO_CONFIGURATION w \<and>
     calls (main rt br (node # script # ''report'' # argv) w) = calls w \<and>
     (assertSchema (parseArgs rt argv orderOptions) orderSchema = Inr checked \<longrightarrow>
        main rt br (node # script # ''buy'' # argv) w = console_error NO_CONFIGURATION w \<and>
        main rt br (node # script # ''sell'' # argv) w = console_error NO_CONFIGURATION w)"
  by (simp add: buy_spec_def sell_spec_def report_spec_def order_def report_def
        getAlpaca_missing main_def select_action_own console_error_def)

theorem missing_credentials_witness:
  "\<not> truthy (config_get (store empty_world) ''keyId'') \<and>
   assertSchema (parseArgs sample_runtime [''AAPL''] orderOptions) orderSchema
     = Inr (parseArgs sample_runtime [''AAPL''] orderOptions) \<and>
   run_handler sample_runtime (sample_broker []) (fn buy_spec)
     \<lparr>positional = [JString ''AAPL''], named = []\<rparr> empty_world
     = (Some (Error NO_CONFIGURATION), empty_world) \<and>
   run_handler sample_runtime (sample_broker []) (fn report_spec)
     \<lparr>positional = [JString ''AAPL''], named = []\<rparr> empty_world
     = (Some (Error NO_CONFIGURATION), empty_world) \<and>
   main sample_runtime (sample_broker []) [''node'', ''alpaca'', ''report''] empty_world
     = console_error NO_CONFIGURATION empty_world \<and>
   main sample_runtime (sample_broker []) [''node'', ''alpaca'', ''buy'', ''AAPL''] empty_world
     = console_error NO_CONFIGURATION empty_world"
proof -
  have k: "\<not> truthy (config_get (store empty_world) ''keyId'')"
    by (simp add: empty_world_def config_get_def)
  then have h: "\<not> truthy (config_get (store empty_world) ''keyId'') \<or>
    \<not> truthy (config_get (store empty_world) ''secretKey'')"
    by (rule disjI1)
  have n: "\<not> isNumber sample_runtime ''AAPL''"
    by (simp add: sample_runtime_def)
  have v: "assertSchema (parseArgs sample_runtime [''AAPL''] orderOptions) orderSchema
     = Inr (parseArgs sample_runtime [''AAPL''] orderOptions)"
    by (simp only: parseArgs_buy_AAPL [OF n] assertSchema_buy_AAPL)
  note a = missing_credentials [OF h, of sample_runtime "sample_broker []"
     "\<lparr>positional = [JString ''AAPL''], named = []\<rparr>" "''node''" "''alpaca''" "[]"
     "parseArgs sample_runtime [''AAPL''] orderOptions"]
  note b = missing_credentials [OF h, of sample_runtime "sample_broker []"
     "\<lparr>positional = [JString ''AAPL''], named = []\<rparr>" "''node''" "''alpaca''" "[''AAPL'']"
     "parseArgs sample_runtime [''AAPL''] orderOptions"]
  from k v a b show ?thesis by blast
qed

section \<open>The report\<close>

lemma positionDescription_strings:
  "typeof (pos_symbol p) = TyString \<and> typeof (pos_qty p) = TyString \<Longrightarrow>
     positionDescription rt p = Inr (position_row rt p)"
  by (cases "pos_symbol p"; cases "pos_qty p")
     (simp_all add: positionDescription_def pad_def position_row_def)

lemma positionDescriptions_strings:
  "\<forall>p\<in>set ps. typeof (pos_symbol p) = TyString \<and> typeof (pos_qty p) = TyString \<Longrightarrow>
     positionDescriptions rt ps = Inr (map (position_row rt) ps)"
  by (induction ps) (simp_all add: positionDescription_strings)

lemma performance_snoc:
  "performance rt (ps @ [p]) =
     add rt (performance rt ps) (parseFloat rt (to_string rt (pos_unrealized_pl p)))"
  by (simp add: performance_def)

lemma report_strings:
  "getAlpaca (store w) = Inr a \<Longrightarrow> getPositions br a = Inr ps \<Longrightarrow>
   \<forall>p\<in>set ps. typeof (pos_symbol p) = TyString \<and> typeof (pos_qty p) = TyString \<Longrightarrow>
   report rt br w =
     (None, console_log (Text (positionSummary rt (map (position_row rt) ps) (performance rt ps)))
              (record_call (GetPositions a) w))"
  by (simp add: report_def positionDescriptions_strings)

lemma sample_row:
  "toCurrency rt (parseFloat rt ''1000'') = ''$1,000.00'' \<Longrightarrow>
   toCurrency rt (parseFloat rt ''1100'') = ''$1,100.00'' \<Longrightarrow>
   toCurrency rt (parseFloat rt ''100'') = ''$100.00'' \<Longrightarrow>
   position_row rt \<lparr>pos_symbol = JString ''AAPL'', pos_qty = JString ''10'',
        pos_cost_basis = JString ''1000'', pos_market_value = JString ''1100'',
        pos_unrealized_pl = JString ''100''\<rparr>
     = ''    AAPL      10 $1,000.00 $1,100.00     $100.00''"
  by (simp add: position_row_def usd_def padStart_def eval_nat_numeral)

lemma sample_performance:
  "parseFloat rt ''100'' = Num 100 \<Longrightarrow> add rt (Num 0) (Num 100) = Num 100 \<Longrightarrow>
   performance rt [\<lparr>pos_symbol = JString ''AAPL'', pos_qty = JString ''10'',
        pos_cost_basis = JString ''1000'', pos_market_value = JString ''1100'',
        pos_unrealized_pl = JString ''100''\<rparr>] = Num 100"
  by (simp add: performance_def)

lemma sample_summary:
  "parseFloat rt ''100'' = Num 100 \<Longrightarrow> numToString rt (Num 100) = ''100'' \<Longrightarrow>
   toCurrency rt (Num 100) = ''$100.00'' \<Longrightarrow>
   positionSummary rt [''    AAPL      10 $1,000.00 $1,100.00     $100.00''] (Num 100)
     = ''\<newline>Portfolio:\<newline>  symbol     qty      cost     value      profit\<newline>    AAPL      10 $1,000.00 $1,100.00     $100.00\<newline>\<newline>Performance:\<newline>  +$100.00\<newline>  ''"
  by (simp add: positionSummary_def usd_def)

text \<open>
  Claim C8, as the script has it. With credentials in the store and positions whose
  symbol and quantity are strings (as the brokerage returns them), the report prints
  the header, one row per position, and the performance line: the total of the
  positions' \<^verbatim>\<open>unrealized_pl\<close>, each parsed by \<^verbatim>\<open>parseFloat\<close> and added from 0 in
  list order by the runtime's addition, formatted as currency, with a plus sign
  exactly when it is greater than 0. For the single position AAPL with quantity
  \<^verbatim>\<open>"10"\<close>, cost basis \<^verbatim>\<open>"1000"\<close>, market value \<^verbatim>\<open>"1100"\<close> and unrealized profit
  \<^verbatim>\<open>"100"\<close>, on a runtime that parses and adds these numbers exactly and formats them
  as the en-US locale does, the output holds the row of AAPL and the line
  \<^verbatim>\<open>+$100.00\<close>.
\<close>

theorem report_total:
  "(getAlpaca (store w) = Inr a \<and> getPositions br a = Inr ps \<and>
    (\<forall>p\<in>set ps. typeof (pos_symbol p) = TyString \<and> typeof (pos_qty p) = TyString) \<longrightarrow>
      report rt br w =
        (None,
         console_log
           (Text (''\<newline>Portfolio:\<newline>  symbol     qty      cost     value      profit\<newline>''
                  @ join ''\<newline>'' (map (position_row rt) ps)
                  @ ''\<newline>\<newline>Performance:\<newline>  ''
                  @ (if num_gt (performance rt ps) 0 then ''+'' else '''')
                  @ usd rt (JNumber (performance rt ps)) @ ''\<newline>  ''))
           (record_call (GetPositions a) w))) \<and>
   performance rt [] = Num 0 \<and>
   performance rt (ps2 @ [p2]) =
     add rt (performance rt ps2) (parseFloat rt (to_string rt (pos_unrealized_pl p2))) \<and>
   (getAlpaca (store w3) = Inr a3 \<and>
    getPositions br3 a3 =
      Inr [\<lparr>pos_symbol = JString ''AAPL'', pos_qty = JString ''10'',
            pos_cost_basis = JString ''1000'', pos_market_value = JString ''1100'',
            pos_unrealized_pl = JString ''100''\<rparr>] \<and>
    parseFloat rt3 ''100'' = Num 100 \<and> add rt3 (Num 0) (Num 100) = Num 100 \<and>
    numToString rt3 (Num 100) = ''100'' \<and> toCurrency rt3 (Num 100) = ''$100.00'' \<and>
    toCurrency rt3 (parseFloat rt3 ''1000'') = ''$1,000.00'' \<and>
    toCurrency rt3 (parseFloat rt3 ''1100'') = ''$1,100.00'' \<longrightarrow>
      report rt3 br3 w3 =
        (None,
         console_log
           (Text ''\<newline>Portfolio:\<newline>  symbol     qty      cost     value      profit\<newline>    AAPL      10 $1,000.00 $1,100.00     $100.00\<newline>\<newline>Performance:\<newline>  +$100.00\<newline>  '')
           (record_call (GetPositions a3) w3)))"
proof (intro conjI impI)
  assume "getAlpaca (store w) = Inr a \<and> getPositions br a = Inr ps \<and>
    (\<forall>p\<in>set ps. typeof (pos_symbol p) = TyString \<and> typeof (pos_qty p) = TyString)"
  then show "report rt br w =
        (None,
         console_log
           (Text (''\<newline>Portfolio:\<newline>  symbol     qty      cost     value      profit\<newline>''
                  @ join ''\<newline>'' (map (position_row rt) ps)
                  @ ''\<newline>\<newline>Performance:\<newline>  ''
                  @ (if num_gt (performance rt ps) 0 then ''+'' else '''')
                  @ usd rt (JNumber (performance rt ps)) @ ''\<newline>  ''))
           (record_call (GetPositions a) w))"
    using report_strings [of w a br ps rt] by (simp add: positionSummary_def)
next
  show "performance rt [] = Num 0" by (simp add: performance_def)
next
  show "performance rt (ps2 @ [p2]) =
     add rt (performance rt ps2) (parseFloat rt (to_string rt (pos_unrealized_pl p2)))"
    by (rule performance_snoc)
next
  assume h: "getAlpaca (store w3) = Inr a3 \<and>
    getPositions br3 a3 =
      Inr [\<lparr>pos_symbol = JString ''AAPL'', pos_qty = JString ''10'',
            pos_cost_basis = JString ''1000'', pos_market_value = JString ''1100'',
            pos_unrealized_pl = JString ''100''\<rparr>] \<and>
    parseFloat rt3 ''100'' = Num 100 \<and> add rt3 (Num 0) (Num 100) = Num 100 \<and>
    numToString rt3 (Num 100) = ''100'' \<and> toCurrency rt3 (Num 100) = ''$100.00'' \<and>
    toCurrency rt3 (parseFloat rt3 ''1000'') = ''$1,000.00'' \<and>
    toCurrency rt3 (parseFloat rt3 ''1100'') = ''$1,100.00''"
  let ?p = "\<lparr>pos_symbol = JString ''AAPL'', pos_qty = JString ''10'',
            pos_cost_basis = JString ''1000'', pos_market_value = JString ''1100'',
            pos_unrealized_pl = JString ''100''\<rparr>"
  from h have row: "position_row rt3 ?p = ''    AAPL      10 $1,000.00 $1,100.00     $100.00''"
    by (intro sample_row) simp_all
  from h have perf: "performance rt3 [?p] = Num 100"
    by (intro sample_performance) simp_all
  from h have summ: "positionSummary rt3 [''    AAPL      10 $1,000.00 $1,100.00     $100.00''] (Num 100)
     = ''\<newline>Portfolio:\<newline>  symbol     qty      cost     value      profit\<newline>    AAPL      10 $1,000.00 $1,100.00     $100.00\<newline>\<newline>Performance:\<newline>  +$100.00\<newline>  ''"
    by (intro sample_summary) simp_all
  from h have "report rt3 br3 w3 =
     (None, console_log (Text (positionSummary rt3 (map (position_row rt3) [?p]) (performance rt3 [?p])))
              (record_call (GetPositions a3) w3))"
    by (intro report_strings) simp_all
  then show "report rt3 br3 w3 =
        (None,
         console_log
           (Text ''\<newline>Portfolio:\<newline>  symbol     qty      cost     value      profit\<newline>    AAPL      10 $1,000.00 $1,100.00     $100.00\<newline>\<newline>Performance:\<newline>  +$100.00\<newline>  '')
           (record_call (GetPositions a3) w3))"
    by (simp only: list.map row perf summ)
qed

theorem report_total_witness:
  "(getAlpaca (store configured_world)
      = Inr \<lparr>keyId = JString ''K'', secretKey = JString ''S'', paper = False,
             baseUrl = JUndefined\<rparr> \<and>
    getPositions (sample_broker [sample_position (JString ''10'')])
        \<lparr>keyId = JString ''K'', secretKey = JString ''S'', paper = False, baseUrl = JUndefined\<rparr>
      = Inr [\<lparr>pos_symbol = JString ''AAPL'', pos_qty = JString ''10'',
            pos_cost_basis = JString ''1000'', pos_market_value = JString ''1100'',
            pos_unrealized_pl = JString ''100''\<rparr>] \<and>
    parseFloat sample_runtime ''100'' = Num 100 \<and>
    add sample_runtime (Num 0) (Num 100) = Num 100 \<and>
    numToString sample_runtime (Num 100) = ''100'' \<and>
    toCurrency sample_runtime (Num 100) = ''$100.00'' \<and>
    toCurrency sample_runtime (parseFloat sample_runtime ''1000'') = ''$1,000.00'' \<and>
    toCurrency sample_runtime (parseFloat sample_runtime ''1100'') = ''$1,100.00'') \<and>
   report sample_runtime (sample_broker [sample_position (JString ''10'')]) configured_world =
     (None,
      console_log
        (Text ''\<newline>Portfolio:\<newline>  symbol     qty      cost     value      profit\<newline>    AAPL      10 $1,000.00 $1,100.00     $100.00\<newline>\<newline>Performance:\<newline>  +$100.00\<newline>  '')
        (record_call (GetPositions \<lparr>keyId = JString ''K'', secretKey = JString ''S'',
            paper = False, baseUrl = JUndefined\<rparr>) configured_world))"
proof -
  have h: "getAlpaca (store configured_world)
      = Inr \<lparr>keyId = JString ''K'', secretKey = JString ''S'', paper = False,
             baseUrl = JUndefined\<rparr> \<and>
    getPositions (sample_broker [sample_position (JString ''10'')])
        \<lparr>keyId = JString ''K'', secretKey = JString ''S'', paper = False, baseUrl = JUndefined\<rparr>
      = Inr [\<lparr>pos_symbol = JString ''AAPL'', pos_qty = JString ''10'',
            pos_cost_basis = JString ''1000'', pos_market_value = JString ''1100'',
            pos_unrealized_pl = JString ''100''\<rparr>] \<and>
    (\<forall>p\<in>set [\<lparr>pos_symbol = JString ''AAPL'', pos_qty = JString ''10'',
            pos_cost_basis = JString ''1000'', pos_market_value = JString ''1100'',
            pos_unrealized_pl = JString ''100''\<rparr>].
        typeof (pos_symbol p) = TyString \<and> typeof (pos_qty p) = TyString) \<and>
    parseFloat sample_runtime ''100'' = Num 100 \<and>
    add sample_runtime (Num 0) (Num 100) = Num 100 \<and>
    numToString sample_runtime (Num 100) = ''100'' \<and>
    toCurrency sample_runtime (Num 100) = ''$100.00'' \<and>
    toCurrency sample_runtime (parseFloat sample_runtime ''1000'') = ''$1,000.00'' \<and>
    toCurrency sample_runtime (parseFloat sample_runtime ''1100'') = ''$1,100.00''"
    by (simp add: getAlpaca_configured_world sample_broker_def sample_position_def
          sample_runtime_def)
  from h report_total [of configured_world
      "\<lparr>keyId = JString ''K'', secretKey = JString ''S'', paper = False, baseUrl = JUndefined\<rparr>"
      "sample_broker [sample_position (JString ''10'')]"
      "[\<lparr>pos_symbol = JString ''AAPL'', pos_qty = JString ''10'',
            pos_cost_basis = JString ''1000'', pos_market_value = JString ''1100'',
            pos_unrealized_pl = JString ''100''\<rparr>]"
      sample_runtime "[]" "sample_position (JString ''10'')" configured_world
      "\<lparr>keyId = JString ''K'', secretKey = JString ''S'', paper = False, baseUrl = JUndefined\<rparr>"
      "sample_broker [sample_position (JString ''10'')]" sample_runtime]
  show ?thesis by blast
qed

text \<open>With the quantity given as the number 10, not as a string, \<^verbatim>\<open>pad\<close> calls
  \<^verbatim>\<open>padStart\<close> on a number: the report throws a type error and prints nothing.\<close>

theorem report_numeric_quantity:
  "report sample_runtime
     (sample_broker [\<lparr>pos_symbol = JString ''AAPL'', pos_qty = JNumber (Num 10),
            pos_cost_basis = JString ''1000'', pos_market_value = JString ''1100'',
            pos_unrealized_pl = JString ''100''\<rparr>])
     configured_world
   = (Some (TypeError ''str.padStart is not a function''),
      record_call (GetPositions \<lparr>keyId = JString ''K'', secretKey = JString ''S'', paper = False,
            baseUrl = JUndefined\<rparr>) configured_world) \<and>
   out (snd (report sample_runtime
     (sample_broker [\<lparr>pos_symbol = JString ''AAPL'', pos_qty = JNumber (Num 10),
            pos_cost_basis = JString ''1000'', pos_market_value = JString ''1100'',
            pos_unrealized_pl = JString ''100''\<rparr>])
     configured_world)) = []"
proof -
  have r: "report sample_runtime
     (sample_broker [\<lparr>pos_symbol = JString ''AAPL'', pos_qty = JNumber (Num 10),
            pos_cost_basis = JString ''1000'', pos_market_value = JString ''1100'',
            pos_unrealized_pl = JString ''100''\<rparr>])
     configured_world
   = (Some (TypeError ''str.padStart is not a function''),
      record_call (GetPositions \<lparr>keyId = JString ''K'', secretKey = JString ''S'', paper = False,
            baseUrl = JUndefined\<rparr>) configured_world)"
    by (simp add: report_def getAlpaca_configured_world sample_broker_def
          positionDescription_def pad_def)
  have o: "out (record_call (GetPositions \<lparr>keyId = JString ''K'', secretKey = JString ''S'',
            paper = False, baseUrl = JUndefined\<rparr>) configured_world) = []"
    by (simp add: record_call_def configured_world_def)
  show ?thesis
    by (simp only: r o snd_conv simp_thms)
qed

section \<open>Properties of configure\<close>

text \<open>
  Claim C9. Running the configure handler twice in succession with the same parsed
  options leaves the configuration store as one run leaves it.
\<close>

theorem configure_idempotent:
  "store (configure args (configure args w)) = store (configure args w)"
  by (simp add: store_configure Let_def)

text \<open>
  Claim C10. A configuration key among keyId, secretKey, mode and baseUrl whose flag
  (id, secret, mode, base-url) is absent or falsy in the parsed options keeps its
  value in the store, every other key of the store is never touched, and with none
  of the four flags truthy the whole store is unchanged.
\<close>

theorem configure_frame:
  "(\<not> truthy (arg args ''id'') \<longrightarrow> store (configure args w) ''keyId'' = store w ''keyId'') \<and>
   (\<not> truthy (arg args ''secret'') \<longrightarrow> store (configure args w) ''secretKey'' = store w ''secretKey'') \<and>
   (\<not> truthy (arg args ''mode'') \<longrightarrow> store (configure args w) ''mode'' = store w ''mode'') \<and>
   (\<not> truthy (arg args ''base-url'') \<longrightarrow> store (configure args w) ''baseUrl'' = store w ''baseUrl'') \<and>
   (key \<notin> {''keyId'', ''secretKey'', ''mode'', ''baseUrl''} \<longrightarrow>
      store (configure args w) key = store w key) \<and>
   (\<not> truthy (arg args ''id'') \<and> \<not> truthy (arg args ''secret'') \<and>
    \<not> truthy (arg args ''mode'') \<and> \<not> truthy (arg args ''base-url'') \<longrightarrow>
      store (configure args w) = store w)"
  by (simp add: store_configure Let_def)

theorem configure_frame_witness:
  "(\<not> truthy (arg \<lparr>positional = [], named = []\<rparr> ''id'') \<and>
    \<not> truthy (arg \<lparr>positional = [], named = []\<rparr> ''secret'') \<and>
    \<not> truthy (arg \<lparr>positional = [], named = []\<rparr> ''mode'') \<and>
    \<not> truthy (arg \<lparr>positional = [], named = []\<rparr> ''base-url'')) \<and>
   ''other'' \<notin> {''keyId'', ''secretKey'', ''mode'', ''baseUrl''} \<and>
   store (configure \<lparr>positional = [], named = []\<rparr> configured_world) = store configured_world \<and>
   store (configure \<lparr>positional = [], named = []\<rparr> configured_world) ''other''
     = store configured_world ''other'' \<and>
   \<not> truthy (arg \<lparr>positional = [], named = [(''mode'', JString ''paper'')]\<rparr> ''id'') \<and>
   store (configure \<lparr>positional = [], named = [(''mode'', JString ''paper'')]\<rparr> configured_world)
       ''keyId''
     = store configured_world ''keyId''"
  using
    configure_frame [of "\<lparr>positional = [], named = []\<rparr>" configured_world "''other''"]
    configure_frame [of "\<lparr>positional = [], named = [(''mode'', JString ''paper'')]\<rparr>"
      configured_world "''other''"]
  by (simp add: arg_def)

end
